theory Spec2Isabelle
  imports Main "HOL-Library.Sublist"
begin

section \<open>Python strings\<close>

text \<open>
  A Python \<open>str\<close> is modelled as a \<open>string\<close>; a character stands for the code point of
  the same number, so the model covers the texts whose code points are below 256.
  The functions of this section are the methods of \<open>str\<close> that \<open>app.py\<close> calls.
\<close>

text \<open>\<open>sub in s\<close>: \<open>sub\<close> occurs in \<open>s\<close> as a contiguous piece.\<close>

fun py_contains :: "string \<Rightarrow> string \<Rightarrow> bool" where
  "py_contains sub [] = (sub = [])"
| "py_contains sub (c # cs) = (prefix sub (c # cs) \<or> py_contains sub cs)"

text \<open>\<open>s.split(sep)\<close> for a separator of one character: never an empty list.\<close>

fun split_from :: "char \<Rightarrow> string \<Rightarrow> string \<Rightarrow> string list" where
  "split_from sep cur [] = [rev cur]"
| "split_from sep cur (c # cs) =
     (if c = sep then rev cur # split_from sep [] cs else split_from sep (c # cur) cs)"

definition py_split :: "char \<Rightarrow> string \<Rightarrow> string list" where
  "py_split sep s = split_from sep [] s"

text \<open>\<open>sep.join(xs)\<close>.\<close>

fun py_join :: "string \<Rightarrow> string list \<Rightarrow> string" where
  "py_join sep [] = []"
| "py_join sep [x] = x"
| "py_join sep (x # y # ys) = x @ sep @ py_join sep (y # ys)"

text \<open>
  \<open>c.isspace()\<close> on the code points below 256: tab, line feed, vertical tab, form feed,
  carriage return, the separators 28 to 31, space, NEL (133) and the no-break space (160).
\<close>

definition py_isspace :: "char \<Rightarrow> bool" where
  "py_isspace c = ((of_char c :: nat) \<in> {9, 10, 11, 12, 13, 28, 29, 30, 31, 32, 133, 160})"

text \<open>\<open>s.strip()\<close>: white space removed at both ends.\<close>

definition py_strip :: "string \<Rightarrow> string" where
  "py_strip s = rev (dropWhile py_isspace (rev (dropWhile py_isspace s)))"

text \<open>
  \<open>s.isdigit()\<close>: a non-empty string of digits. Below 256 the digits are \<open>0\<close> to \<open>9\<close> and
  the superscripts two, three and one (178, 179, 185).
\<close>

definition py_isdigit_char :: "char \<Rightarrow> bool" where
  "py_isdigit_char c =
     (let n = (of_char c :: nat) in (48 \<le> n \<and> n \<le> 57) \<or> n = 178 \<or> n = 179 \<or> n = 185)"

definition py_isdigit :: "string \<Rightarrow> bool" where
  "py_isdigit s = (s \<noteq> [] \<and> list_all py_isdigit_char s)"

text \<open>\<open>s.find(c)\<close> and \<open>s.rfind(c)\<close> for one character: an index, or \<open>-1\<close>.\<close>

definition py_find :: "char \<Rightarrow> string \<Rightarrow> int" where
  "py_find c s = (if c \<in> set s then int (length (takeWhile (\<lambda>x. x \<noteq> c) s)) else - 1)"

definition py_rfind :: "char \<Rightarrow> string \<Rightarrow> int" where
  "py_rfind c s =
     (if c \<in> set s then int (length s) - 1 - int (length (takeWhile (\<lambda>x. x \<noteq> c) (rev s)))
      else - 1)"

text \<open>
  \<open>s[a:b]\<close>: a negative bound counts from the end, and both bounds are clamped to the
  string.
\<close>

definition py_slice :: "string \<Rightarrow> int \<Rightarrow> int \<Rightarrow> string" where
  "py_slice s a b =
     (let n = int (length s);
          lo = (if a < 0 then max 0 (a + n) else min a n);
          hi = (if b < 0 then max 0 (b + n) else min b n)
      in take (nat (hi - lo)) (drop (nat lo) s))"

section \<open>The caption normalizer: \<open>clean_srt_to_plain_text\<close>\<close>

text \<open>
  The body of the \<open>while\<close> loop of \<open>clean_srt_to_plain_text\<close> on the line \<open>lines[i]\<close>:
  the new value of the accumulator \<open>plain_text\<close>. Every path through the body adds one to
  \<open>i\<close>, which the loop below does. \<open>html.unescape\<close> belongs to the standard library and
  is a parameter of the model. The last test \<open>if line\<close> of the source is kept although
  the first one already excludes the empty line.
\<close>

definition clean_body :: "(string \<Rightarrow> string) \<Rightarrow> string \<Rightarrow> string list \<Rightarrow> string list" where
  "clean_body unescape raw plain_text =
     (let line = py_strip raw in
      if line = [] then plain_text
      else if py_isdigit line then plain_text
      else if py_contains ''-->'' line then plain_text
      else if line \<noteq> [] then plain_text @ [unescape line]
      else plain_text)"

function clean_loop :: "(string \<Rightarrow> string) \<Rightarrow> string list \<Rightarrow> nat \<Rightarrow> string list \<Rightarrow> string list" where
  "clean_loop unescape lines i plain_text =
     (if i < length lines
      then clean_loop unescape lines (i + 1) (clean_body unescape (lines ! i) plain_text)
      else plain_text)"
  by pat_completeness auto
termination
  by (relation "measure (\<lambda>(unescape, lines, i, plain_text). length lines - i)") auto

declare clean_loop.simps [simp del]

definition clean_srt_to_plain_text :: "(string \<Rightarrow> string) \<Rightarrow> string \<Rightarrow> string" where
  "clean_srt_to_plain_text unescape srt_content =
     py_join '' '' (clean_loop unescape (py_split (CHR 0x0A) srt_content) 0 [])"

text \<open>
  The normalizer in the words of the specification: a line is discarded when it is empty
  after trimming, purely numeric, or contains the time-range separator; the lines that
  remain are decoded and joined by single spaces.
\<close>

definition discarded :: "string \<Rightarrow> bool" where
  "discarded line = (line = [] \<or> py_isdigit line \<or> py_contains ''-->'' line)"

definition kept :: "string \<Rightarrow> bool" where
  "kept line = (\<not> discarded line)"

definition normalize_spec :: "(string \<Rightarrow> string) \<Rightarrow> string \<Rightarrow> string" where
  "normalize_spec unescape s =
     py_join '' '' (map unescape (filter kept (map py_strip (py_split (CHR 0x0A) s))))"

text \<open>
  A stand-in for \<open>html.unescape\<close> on concrete inputs: it decodes the references
  \<open>&amp;\<close>, \<open>&lt;\<close> and \<open>&gt;\<close> from left to right, each decoded character being
  final, and copies every other character. It agrees with the library on the strings in
  which every \<open>&\<close> opens one of these three references.
\<close>

function unescape_basic :: "string \<Rightarrow> string" where
  "unescape_basic [] = []"
| "unescape_basic (c # cs) =
     (if c = CHR ''&'' \<and> prefix ''amp;'' cs then CHR ''&'' # unescape_basic (drop 4 cs)
      else if c = CHR ''&'' \<and> prefix ''lt;'' cs then CHR ''<'' # unescape_basic (drop 3 cs)
      else if c = CHR ''&'' \<and> prefix ''gt;'' cs then CHR ''>'' # unescape_basic (drop 3 cs)
      else c # unescape_basic cs)"
  by pat_completeness auto
termination
  by (relation "measure length") auto

section \<open>Exceptions and result dictionaries\<close>

text \<open>
  The exceptions the code distinguishes, each with the text \<open>str(e)\<close>. An \<open>HttpError\<close>
  also carries what reading the reason out of its JSON content gives (lines 169 and 170
  of \<open>app.py\<close>): the reason, or the exception that this reading raises.
  \<open>JSONDecodeError\<close> is a subclass of \<open>ValueError\<close>; \<open>TypeError\<close> and \<open>IndexError\<close> are
  not; \<open>OtherError\<close> is any other subclass of \<open>Exception\<close>.
\<close>

datatype exn =
    ValueError string
  | JSONDecodeError string
  | IndexError string
  | TypeError string
  | HttpError string "exn + string"
  | TranscriptsDisabled string
  | NoTranscriptFound string
  | OtherError string

fun str :: "exn \<Rightarrow> string" where
  "str (ValueError m) = m"
| "str (JSONDecodeError m) = m"
| "str (IndexError m) = m"
| "str (TypeError m) = m"
| "str (HttpError m r) = m"
| "str (TranscriptsDisabled m) = m"
| "str (NoTranscriptFound m) = m"
| "str (OtherError m) = m"

fun is_ValueError :: "exn \<Rightarrow> bool" where
  "is_ValueError (ValueError m) = True"
| "is_ValueError (JSONDecodeError m) = True"
| "is_ValueError e = False"

fun is_JSONDecodeError :: "exn \<Rightarrow> bool" where
  "is_JSONDecodeError (JSONDecodeError m) = True"
| "is_JSONDecodeError e = False"

fun is_IndexError :: "exn \<Rightarrow> bool" where
  "is_IndexError (IndexError m) = True"
| "is_IndexError e = False"

fun is_HttpError :: "exn \<Rightarrow> bool" where
  "is_HttpError (HttpError m r) = True"
| "is_HttpError e = False"

fun is_no_transcript :: "exn \<Rightarrow> bool" where
  "is_no_transcript (TranscriptsDisabled m) = True"
| "is_no_transcript (NoTranscriptFound m) = True"
| "is_no_transcript e = False"

text \<open>
  The dictionaries the functions return: \<open>{"status": "error", "message": m}\<close> or the
  success dictionary of each function.
\<close>

datatype info_result = IError string | ISuccess string string string

datatype text_result = TError string | TSuccess string

datatype 'j quiz_result = QError string | QSuccess 'j

section \<open>The external services\<close>

text \<open>
  A transcript track of the transcript provider: its language code, what \<open>fetch()\<close>
  gives (the texts of the parts, or an exception) and what \<open>translate(code)\<close> gives.
\<close>

datatype track =
  Track (language_code: string) (fetch: "exn + string list") (translate: "string \<Rightarrow> exn + track")

text \<open>A caption track of the metadata API: its id and its \<open>snippet.language\<close>.\<close>

record caption_track =
  track_id :: string
  language :: string

text \<open>
  The two instructions sent to the generative service, by the values the f-string
  embeds: the video title, the content and the number of questions.
\<close>

datatype prompt =
    TranscriptPrompt string string int
  | DescriptionPrompt string string int

text \<open>
  Everything \<open>app.py\<close> calls outside itself, as functions of the arguments it passes.
  \<^item> \<open>urlparse_query url\<close> is \<open>urllib.parse.urlparse(url).query\<close>, and \<open>parse_qs\<close> the
    dictionary of \<open>urllib.parse.parse_qs\<close>;
  \<^item> \<open>videos_list video_id\<close> is the list \<open>response['items']\<close> of
    \<open>youtube.videos().list(...).execute()\<close>, an item being its title and description;
  \<^item> \<open>list_transcripts video_id\<close> is \<open>YouTubeTranscriptApi.list_transcripts\<close>: the
    tracks of the \<open>TranscriptList\<close> it returns, in the order of its iteration, the
    manually created ones first;
  \<^item> \<open>captions_list video_id\<close> is the list \<open>items\<close> of
    \<open>youtube.captions().list(...).execute()\<close> (empty when the key is absent), and
    \<open>captions_download caption_id\<close> the text of the downloaded track;
  \<^item> \<open>generate_content prompt\<close> is the call of the generative model, and its result
    what reading \<open>response.text\<close> gives;
  \<^item> \<open>json_loads\<close> is \<open>json.loads\<close>, \<open>'j\<close> being the parsed values, and \<open>unescape\<close>
    is \<open>html.unescape\<close>.
\<close>

record 'j services =
  urlparse_query :: "string \<Rightarrow> exn + string"
  parse_qs :: "string \<Rightarrow> string \<rightharpoonup> string list"
  videos_list :: "string \<Rightarrow> exn + (string \<times> string) list"
  list_transcripts :: "string \<Rightarrow> exn + track list"
  captions_list :: "string \<Rightarrow> exn + caption_track list"
  captions_download :: "string \<Rightarrow> exn + string"
  generate_content :: "prompt \<Rightarrow> exn + (exn + string)"
  json_loads :: "string \<Rightarrow> exn + 'j"
  unescape :: "string \<Rightarrow> string"

section \<open>The URL parser: \<open>extract_video_id\<close>\<close>

text \<open>\<open>xs[-1]\<close> and \<open>xs[0]\<close>: an \<open>IndexError\<close> on the empty list.\<close>

definition py_last :: "'a list \<Rightarrow> exn + 'a" where
  "py_last xs = (case rev xs of [] \<Rightarrow> Inl (IndexError ''list index out of range'') | x # _ \<Rightarrow> Inr x)"

definition py_first :: "'a list \<Rightarrow> exn + 'a" where
  "py_first xs = (case xs of [] \<Rightarrow> Inl (IndexError ''list index out of range'') | x # _ \<Rightarrow> Inr x)"

definition extract_video_id :: "'j services \<Rightarrow> string \<Rightarrow> exn + string" where
  "extract_video_id sv youtube_url =
     (if py_contains ''youtu.be'' youtube_url then
        (case py_last (py_split (CHR ''/'') youtube_url) of
           Inl e \<Rightarrow> Inl e
         | Inr seg \<Rightarrow> py_first (py_split (CHR ''?'') seg))
      else if py_contains ''youtube.com/watch'' youtube_url then
        (case urlparse_query sv youtube_url of
           Inl e \<Rightarrow> Inl e
         | Inr query \<Rightarrow>
             (case parse_qs sv query ''v'' of
                Some vs \<Rightarrow> py_first vs
              | None \<Rightarrow> Inl (ValueError ''Invalid YouTube URL: missing video ID parameter'')))
      else Inl (ValueError ''Invalid YouTube URL format. Please use a standard YouTube URL''))"

section \<open>Video metadata: \<open>get_video_info\<close>\<close>

definition get_video_info :: "'j services \<Rightarrow> string \<Rightarrow> info_result" where
  "get_video_info sv video_id =
     (case videos_list sv video_id of
        Inl e \<Rightarrow>
          (if is_HttpError e then IError (''YouTube API error: '' @ str e) else IError (str e))
      | Inr [] \<Rightarrow> IError ''Video not found. Please check the URL and try again.''
      | Inr ((title, description) # _) \<Rightarrow> ISuccess title description video_id)"

section \<open>The primary strategy: \<open>get_video_transcript\<close>\<close>

text \<open>
  \<open>transcript_list.find_transcript(codes)\<close> of the transcript provider: the codes are
  tried in their order, and the first track of the list with the code is returned;
  \<open>NoTranscriptFound\<close> when no code has a track.
\<close>

fun find_transcript :: "track list \<Rightarrow> string list \<Rightarrow> exn + track" where
  "find_transcript tracks [] = Inl (NoTranscriptFound ''no transcript for the requested languages'')"
| "find_transcript tracks (code # codes) =
     (case List.find (\<lambda>t. language_code t = code) tracks of
        Some t \<Rightarrow> Inr t
      | None \<Rightarrow> find_transcript tracks codes)"

definition no_transcript_message :: string where
  "no_transcript_message =
     ''No transcript available for this video. Please choose a video with captions.''"

text \<open>
  \<open>transcript_list[i]\<close> (line 95). The object that \<open>list_transcripts\<close> returns is the
  provider's \<open>TranscriptList\<close>: it can be iterated and searched with
  \<open>find_transcript\<close>, and it defines no \<open>__getitem__\<close>. So the subscript raises
  \<open>TypeError\<close>, whatever the list holds.
\<close>

definition not_subscriptable_message :: string where
  "not_subscriptable_message =
     CHR 0x27 # ''TranscriptList'' @ CHR 0x27 # '' object is not subscriptable''"

definition transcript_list_item :: "track list \<Rightarrow> int \<Rightarrow> exn + track" where
  "transcript_list_item transcript_list i = Inl (TypeError not_subscriptable_message)"

text \<open>
  Lines 86 to 98: the three nested \<open>try\<close> blocks that choose the track. The bare
  \<open>except:\<close> clauses catch every exception; the innermost block catches \<open>IndexError\<close>
  only and returns the error dictionary from the function (\<open>ReturnNoTranscript\<close>); any
  other exception of the subscript or of \<open>translate\<close> leaves the block.
\<close>

datatype selection = Selected track | ReturnNoTranscript

definition select_transcript :: "track list \<Rightarrow> exn + selection" where
  "select_transcript transcript_list =
     (case find_transcript transcript_list [''en''] of
        Inr t \<Rightarrow> Inr (Selected t)
      | Inl _ \<Rightarrow>
          (case find_transcript transcript_list [''en-US'', ''en-GB''] of
             Inr t \<Rightarrow> Inr (Selected t)
           | Inl _ \<Rightarrow>
               (case transcript_list_item transcript_list 0 of
                  Inl e \<Rightarrow> (if is_IndexError e then Inr ReturnNoTranscript else Inl e)
                | Inr t0 \<Rightarrow>
                    (case translate t0 ''en'' of
                       Inr t \<Rightarrow> Inr (Selected t)
                     | Inl e \<Rightarrow> (if is_IndexError e then Inr ReturnNoTranscript else Inl e)))))"

text \<open>The body of the outer \<open>try\<close>: the dictionary returned, or the exception raised.\<close>

definition transcript_body :: "'j services \<Rightarrow> string \<Rightarrow> exn + text_result" where
  "transcript_body sv video_id =
     (case list_transcripts sv video_id of
        Inl e \<Rightarrow> Inl e
      | Inr transcript_list \<Rightarrow>
          (case select_transcript transcript_list of
             Inl e \<Rightarrow> Inl e
           | Inr ReturnNoTranscript \<Rightarrow> Inr (TError no_transcript_message)
           | Inr (Selected transcript) \<Rightarrow>
               (case fetch transcript of
                  Inl e \<Rightarrow> Inl e
                | Inr transcript_data \<Rightarrow> Inr (TSuccess (py_join '' '' transcript_data)))))"

definition get_video_transcript :: "'j services \<Rightarrow> string \<Rightarrow> text_result" where
  "get_video_transcript sv video_id =
     (case transcript_body sv video_id of
        Inr r \<Rightarrow> r
      | Inl e \<Rightarrow>
          (if is_no_transcript e then TError no_transcript_message
           else TError (''Error retrieving transcript: '' @ str e)))"

section \<open>The caption fallback: \<open>get_captions_from_youtube_api\<close>\<close>

text \<open>
  The \<open>for\<close> loop over the caption tracks: the id of the first track whose language is
  \<open>en\<close>, \<open>en-US\<close> or \<open>en-GB\<close>, or \<open>None\<close>.
\<close>

fun prefer_english :: "caption_track list \<Rightarrow> string option" where
  "prefer_english [] = None"
| "prefer_english (t # ts) =
     (if language t \<in> set [''en'', ''en-US'', ''en-GB''] then Some (track_id t)
      else prefer_english ts)"

text \<open>\<open>not caption_id\<close>: \<open>None\<close> and the empty string are false.\<close>

fun py_not :: "string option \<Rightarrow> bool" where
  "py_not None = True"
| "py_not (Some s) = (s = [])"

text \<open>The body of the \<open>try\<close>: the dictionary returned, or the exception raised.\<close>

definition captions_body :: "'j services \<Rightarrow> string \<Rightarrow> exn + text_result" where
  "captions_body sv video_id =
     (case captions_list sv video_id of
        Inl e \<Rightarrow> Inl e
      | Inr caption_tracks \<Rightarrow>
          (case caption_tracks of
             [] \<Rightarrow> Inr (TError ''No captions available for this video'')
           | first_track # _ \<Rightarrow>
               (let caption_id = prefer_english caption_tracks;
                    caption_id = (if py_not caption_id then Some (track_id first_track)
                                  else caption_id)
                in case caption_id of
                     None \<Rightarrow> Inr (TError ''No usable captions found'')
                   | Some cid \<Rightarrow>
                       (if cid = [] then Inr (TError ''No usable captions found'')
                        else
                          (case captions_download sv cid of
                             Inl e \<Rightarrow> Inl e
                           | Inr caption_text \<Rightarrow>
                               Inr (TSuccess (clean_srt_to_plain_text (unescape sv) caption_text)))))))"

text \<open>
  The function with its handlers. An exception raised while the \<open>HttpError\<close> handler
  reads the reason is raised by the function itself.
\<close>

definition get_captions_from_youtube_api :: "'j services \<Rightarrow> string \<Rightarrow> exn + text_result" where
  "get_captions_from_youtube_api sv video_id =
     (case captions_body sv video_id of
        Inr r \<Rightarrow> Inr r
      | Inl (HttpError m content) \<Rightarrow>
          (case content of
             Inl e \<Rightarrow> Inl e
           | Inr error_reason \<Rightarrow>
               (if error_reason = ''forbidden''
                then Inr (TError ''Unable to access captions due to permission restrictions'')
                else Inr (TError (''YouTube API error: '' @ m))))
      | Inl e \<Rightarrow> Inr (TError (''Error retrieving captions: '' @ str e)))"

section \<open>The quiz synthesizer: \<open>generate_quiz\<close> and \<open>generate_quiz_from_description\<close>\<close>

definition invalid_format_message :: string where
  "invalid_format_message = ''Invalid response format from Gemini API''"

definition parse_failed_message :: string where
  "parse_failed_message = ''Failed to parse quiz data''"

text \<open>
  The inner \<open>try\<close> block after \<open>response_text\<close> is read (lines 253 to 265, and the same
  text at lines 310 to 322): the dictionary returned, or an exception that is not a
  \<open>JSONDecodeError\<close> and goes to the outer handler.
\<close>

definition parse_response :: "(string \<Rightarrow> exn + 'j) \<Rightarrow> string \<Rightarrow> exn + 'j quiz_result" where
  "parse_response loads response_text =
     (let start_idx = py_find (CHR ''['') response_text;
          end_idx = py_rfind (CHR '']'') response_text + 1
      in if start_idx \<noteq> - 1 \<and> end_idx \<noteq> - 1 then
           (case loads (py_slice response_text start_idx end_idx) of
              Inr quiz_data \<Rightarrow> Inr (QSuccess quiz_data)
            | Inl e \<Rightarrow> (if is_JSONDecodeError e then Inr (QError parse_failed_message) else Inl e))
         else Inr (QError invalid_format_message))"

text \<open>
  The two functions differ in the instruction only. Reading \<open>response.text\<close> stands in
  the inner \<open>try\<close>, so a \<open>JSONDecodeError\<close> there has the inner handler too.
\<close>

definition synthesize :: "'j services \<Rightarrow> prompt \<Rightarrow> 'j quiz_result" where
  "synthesize sv p =
     (case generate_content sv p of
        Inl e \<Rightarrow> QError (str e)
      | Inr (Inl e) \<Rightarrow>
          (if is_JSONDecodeError e then QError parse_failed_message else QError (str e))
      | Inr (Inr response_text) \<Rightarrow>
          (case parse_response (json_loads sv) response_text of
             Inr r \<Rightarrow> r
           | Inl e \<Rightarrow> QError (str e)))"

definition generate_quiz :: "'j services \<Rightarrow> string \<Rightarrow> string \<Rightarrow> int \<Rightarrow> 'j quiz_result" where
  "generate_quiz sv transcript video_title num_questions =
     synthesize sv (TranscriptPrompt video_title transcript num_questions)"

definition generate_quiz_from_description ::
    "'j services \<Rightarrow> string \<Rightarrow> string \<Rightarrow> int \<Rightarrow> 'j quiz_result" where
  "generate_quiz_from_description sv description video_title num_questions =
     synthesize sv (DescriptionPrompt video_title description num_questions)"

section \<open>The request handler: \<open>process_youtube_video\<close>\<close>

text \<open>
  The JSON body of a request: \<open>youtube_url\<close> and \<open>num_questions\<close>, each present or not.
  \<open>num_questions\<close> is an integer when present. The test \<open>not youtube_url\<close> holds for
  an absent and for an empty URL.
\<close>

record request =
  youtube_url :: "string option"
  num_questions :: "int option"

text \<open>
  The body of a response: the error dictionary, or the success dictionary with the
  video title, the quiz and the content source.
\<close>

datatype 'j body = ErrorBody string | SuccessBody string 'j string

type_synonym 'j response = "'j body \<times> nat"

text \<open>
  The calls the handler makes to the functions of \<open>app.py\<close> that reach a service, in
  their order. The handler returns its response together with this list.
\<close>

datatype call =
    CallVideoInfo string
  | CallTranscript string
  | CallCaptions string
  | CallGenerateQuiz string string int
  | CallGenerateQuizFromDescription string string int

text \<open>The two \<open>except\<close> clauses of the handler.\<close>

definition handle_exception :: "exn \<Rightarrow> 'j response" where
  "handle_exception e = (if is_ValueError e then (ErrorBody (str e), 400) else (ErrorBody (str e), 500))"

fun is_error :: "text_result \<Rightarrow> bool" where
  "is_error (TError m) = True"
| "is_error (TSuccess t) = False"

text \<open>Line 364: \<open>data.get('num_questions', 5)\<close>.\<close>

definition requested_questions :: "request \<Rightarrow> int" where
  "requested_questions data = (case num_questions data of None \<Rightarrow> 5 | Some n \<Rightarrow> n)"

definition process_youtube_video :: "'j services \<Rightarrow> request \<Rightarrow> 'j response \<times> call list" where
  "process_youtube_video sv data =
     (let num_questions = requested_questions data in
      case youtube_url data of
        None \<Rightarrow> ((ErrorBody ''YouTube URL is required'', 400), [])
      | Some url \<Rightarrow>
        if url = [] then ((ErrorBody ''YouTube URL is required'', 400), [])
        else
        (case extract_video_id sv url of
           Inl e \<Rightarrow> (handle_exception e, [])
         | Inr video_id \<Rightarrow>
             (case get_video_info sv video_id of
                IError m \<Rightarrow> ((ErrorBody m, 500), [CallVideoInfo video_id])
              | ISuccess title description vid \<Rightarrow>
                  (let calls = [CallVideoInfo video_id, CallTranscript video_id];
                       transcript_result = get_video_transcript sv video_id;
                       (transcript_result, calls) =
                         (if is_error transcript_result
                          then (get_captions_from_youtube_api sv video_id,
                                calls @ [CallCaptions video_id])
                          else (Inr transcript_result, calls))
                   in case transcript_result of
                        Inl e \<Rightarrow> (handle_exception e, calls)
                      | Inr transcript_result \<Rightarrow>
                          (let (quiz_result, content_source, calls) =
                                 (case transcript_result of
                                    TSuccess text \<Rightarrow>
                                      (generate_quiz sv text title num_questions,
                                       ''transcript'',
                                       calls @ [CallGenerateQuiz text title num_questions])
                                  | TError m \<Rightarrow>
                                      (generate_quiz_from_description sv description title
                                         num_questions,
                                       ''description'',
                                       calls @ [CallGenerateQuizFromDescription description title
                                                  num_questions]))
                           in case quiz_result of
                                QError m \<Rightarrow> ((ErrorBody m, 500), calls)
                              | QSuccess quiz \<Rightarrow>
                                  ((SuccessBody title quiz content_source, 200), calls))))))"

section \<open>The specification's vocabulary\<close>

text \<open>
  \<open>MalformedResponse\<close>: the specification has one error for a reply without a bracket
  pair and for a slice that is not JSON; the code has a message for each.
\<close>

fun malformed_response :: "'j quiz_result \<Rightarrow> bool" where
  "malformed_response (QError m) = (m = invalid_format_message \<or> m = parse_failed_message)"
| "malformed_response (QSuccess q) = False"

text \<open>
  Already plain text: no line is purely numeric and no line has the time-range
  separator, the lines being trimmed as the normalizer trims them.
\<close>

definition already_plain :: "string \<Rightarrow> bool" where
  "already_plain s =
     list_all (\<lambda>l. \<not> py_isdigit l \<and> \<not> py_contains ''-->'' l)
       (map py_strip (py_split (CHR 0x0A) s))"

text \<open>
  A trimmed line: not empty, with no white space at either end. The lines the
  normalizer keeps are trimmed, and so is what joining them gives.
\<close>

definition trimmed :: "string \<Rightarrow> bool" where
  "trimmed l = (l \<noteq> [] \<and> \<not> py_isspace (hd l) \<and> \<not> py_isspace (last l))"

section \<open>A concrete world for the examples\<close>

text \<open>
  A stand-in for \<open>json.loads\<close> on concrete inputs: it parses the JSON texts written
  with the three characters \<open>[\<close>, \<open>]\<close> and \<open>,\<close> (nested arrays without white space) and
  rejects every other text, the empty one too. It agrees with the library on the texts
  over these three characters. The stack holds the arrays that are open, each with its
  elements in reverse.
\<close>

datatype json = JArray "json list"

datatype jmode = WantValue | WantValueOrClose | WantCommaOrClose | Finished json

fun parse_arrays :: "jmode \<Rightarrow> json list list \<Rightarrow> string \<Rightarrow> json option" where
  "parse_arrays m st [] = (case m of Finished v \<Rightarrow> Some v | _ \<Rightarrow> None)"
| "parse_arrays m st (c # cs) =
     (if c = CHR ''['' then
        (case m of
           WantValue \<Rightarrow> parse_arrays WantValueOrClose ([] # st) cs
         | WantValueOrClose \<Rightarrow> parse_arrays WantValueOrClose ([] # st) cs
         | _ \<Rightarrow> None)
      else if c = CHR '']'' then
        (case m of
           WantValue \<Rightarrow> None
         | Finished v \<Rightarrow> None
         | _ \<Rightarrow>
             (case st of
                [] \<Rightarrow> None
              | [arr] \<Rightarrow> parse_arrays (Finished (JArray (rev arr))) [] cs
              | arr # parent # rest \<Rightarrow>
                  parse_arrays WantCommaOrClose ((JArray (rev arr) # parent) # rest) cs))
      else if c = CHR '','' then
        (case m of WantCommaOrClose \<Rightarrow> parse_arrays WantValue st cs | _ \<Rightarrow> None)
      else None)"

definition json_loads_arrays :: "string \<Rightarrow> exn + json" where
  "json_loads_arrays s =
     (case parse_arrays WantValue [] s of
        Some v \<Rightarrow> Inr v
      | None \<Rightarrow> Inl (JSONDecodeError ''Expecting value''))"

text \<open>
  Stand-ins for \<open>urlparse(url).query\<close> and \<open>parse_qs\<close>: the text between the first \<open>?\<close>
  and the first \<open>#\<close> after it, and its pairs \<open>key=value\<close> separated by \<open>&\<close>. They agree
  with the library on URLs with a scheme and a host whose query has distinct keys,
  values that are not empty, and no escapes.
\<close>

definition demo_query :: "string \<Rightarrow> exn + string" where
  "demo_query url =
     Inr (takeWhile (\<lambda>c. c \<noteq> CHR ''#'') (drop 1 (dropWhile (\<lambda>c. c \<noteq> CHR ''?'') url)))"

definition demo_parse_qs :: "string \<Rightarrow> string \<rightharpoonup> string list" where
  "demo_parse_qs query =
     map_of (map (\<lambda>kv. (takeWhile (\<lambda>c. c \<noteq> CHR ''='') kv,
                        [drop 1 (dropWhile (\<lambda>c. c \<noteq> CHR ''='') kv)]))
               (filter (\<lambda>kv. CHR ''='' \<in> set kv) (py_split (CHR ''&'') query)))"

text \<open>A subtitle file of two blocks, its lines joined by line feeds.\<close>

definition demo_srt :: string where
  "demo_srt =
     py_join [CHR 0x0A]
       [''1'', ''00:00:01,000 --> 00:00:02,500'', ''Tom &amp; Jerry'', [],
        ''2'', ''00:00:02,500 --> 00:00:04,000'', ''  run &lt;fast&gt;  '', []]"

text \<open>A track that cannot be translated, and a German track with an English translation.\<close>

definition demo_track :: "string \<Rightarrow> string list \<Rightarrow> track" where
  "demo_track code parts = Track code (Inr parts) (\<lambda>l. Inl (OtherError ''not translatable''))"

definition demo_german :: track where
  "demo_german =
     Track ''de'' (Inr [''Hallo'', ''Welt''])
       (\<lambda>l. if l = ''en'' then Inr (demo_track ''en'' [''Hello'', ''world''])
            else Inl (OtherError ''not translatable''))"

text \<open>
  The videos of the world:
  \<^item> \<open>talk\<close> has transcripts in French, British English and English;
  \<^item> \<open>british\<close> has transcripts in French, British English and American English;
  \<^item> \<open>german\<close> has the German transcript and a French one;
  \<^item> \<open>french\<close> has a French transcript that cannot be translated;
  \<^item> \<open>empty\<close> has an empty list of transcripts;
  \<^item> \<open>subbed\<close> has no transcripts, and caption tracks in German and English;
  \<^item> \<open>locked\<close> has no transcripts, and its captions are forbidden;
  \<^item> \<open>silent\<close> and \<open>blank\<close> have neither; the description of \<open>blank\<close> is empty;
  \<^item> \<open>gone\<close> does not exist.
  The generative service answers a transcript with a quiz inside prose, a description
  with a bare quiz, and an empty description with prose only.
\<close>

definition demo_services :: "json services" where
  "demo_services =
     \<lparr> urlparse_query = demo_query,
       parse_qs = demo_parse_qs,
       videos_list = (\<lambda>video_id.
         if video_id = ''gone'' then Inr []
         else if video_id = ''blank'' then Inr [(''Blank'', [])]
         else Inr [(''Owls'', ''A film about owls'')]),
       list_transcripts = (\<lambda>video_id.
         if video_id = ''talk''
         then Inr [demo_track ''fr'' [''Bonjour''], demo_track ''en-GB'' [''Good day''],
                   demo_track ''en'' [''Hello'', ''world'']]
         else if video_id = ''british''
         then Inr [demo_track ''fr'' [''Bonjour''], demo_track ''en-GB'' [''Good day''],
                   demo_track ''en-US'' [''Howdy'']]
         else if video_id = ''german'' then Inr [demo_german, demo_track ''fr'' [''Bonjour'']]
         else if video_id = ''french'' then Inr [demo_track ''fr'' [''Bonjour'']]
         else if video_id = ''empty'' then Inr []
         else Inl (TranscriptsDisabled ''Subtitles are disabled for this video'')),
       captions_list = (\<lambda>video_id.
         if video_id = ''subbed''
         then Inr [\<lparr>track_id = ''c1'', language = ''de''\<rparr>, \<lparr>track_id = ''c2'', language = ''en''\<rparr>]
         else if video_id = ''locked'' then Inl (HttpError ''403 Forbidden'' (Inr ''forbidden''))
         else Inr []),
       captions_download = (\<lambda>caption_id. Inr demo_srt),
       generate_content = (\<lambda>p.
         case p of
           TranscriptPrompt title content n \<Rightarrow> Inr (Inr ''Here is the quiz: [[],[]] Good luck!'')
         | DescriptionPrompt title content n \<Rightarrow>
             (if content = [] then Inr (Inr ''Sorry, there is nothing to ask about.'')
              else Inr (Inr ''[[]]''))),
       json_loads = json_loads_arrays,
       unescape = unescape_basic \<rparr>"

definition demo_request :: "string \<Rightarrow> request" where
  "demo_request url = \<lparr> youtube_url = Some url, num_questions = None \<rparr>"

section \<open>Properties of the string functions\<close>

lemma py_contains_sublist: "py_contains sub s = sublist sub s"
  by (induction s) (auto simp: sublist_Cons_right)

lemma sublist_sep:
  assumes c: "c \<notin> set sub" and ne: "sub \<noteq> []" and s: "sublist sub (a @ c # b)"
  shows "sublist sub a \<or> sublist sub b"
proof -
  from s consider "sublist sub a" | "sublist sub (c # b)"
    | xs1 xs2 where "sub = xs1 @ xs2" "suffix xs1 a" "prefix xs2 (c # b)"
    by (auto simp: sublist_append)
  then show ?thesis
  proof cases
    case 1
    then show ?thesis by simp
  next
    case 2
    then have "prefix sub (c # b) \<or> sublist sub b"
      by (simp add: sublist_Cons_right)
    moreover have "\<not> prefix sub (c # b)"
      using c ne by (auto simp: prefix_Cons)
    ultimately show ?thesis by simp
  next
    case 3
    from 3(3) c 3(1) have "xs2 = []"
      by (auto simp: prefix_Cons)
    with 3(1,2) have "suffix sub a" by simp
    then show ?thesis
      by (auto simp: suffix_def)
  qed
qed

lemma split_from_no_sep: "sep \<notin> set s \<Longrightarrow> split_from sep cur s = [rev cur @ s]"
  by (induction s arbitrary: cur) auto

lemma py_split_no_sep: "sep \<notin> set s \<Longrightarrow> py_split sep s = [s]"
  by (simp add: py_split_def split_from_no_sep)

lemma split_from_pieces:
  "sep \<notin> set cur \<Longrightarrow> x \<in> set (split_from sep cur s) \<Longrightarrow>
   sep \<notin> set x \<and> set x \<subseteq> set cur \<union> set s"
proof (induction s arbitrary: cur)
  case Nil
  then show ?case by auto
next
  case (Cons c cs)
  show ?case
  proof (cases "c = sep")
    case True
    with Cons.prems have "x = rev cur \<or> x \<in> set (split_from sep [] cs)"
      by simp
    then show ?thesis
      using Cons.IH [of "[]"] Cons.prems(1) by auto
  next
    case False
    with Cons.prems have "x \<in> set (split_from sep (c # cur) cs)"
      by simp
    then show ?thesis
      using Cons.IH [of "c # cur"] Cons.prems(1) False by auto
  qed
qed

lemma py_split_pieces:
  "x \<in> set (py_split sep s) \<Longrightarrow> sep \<notin> set x \<and> set x \<subseteq> set s"
  using split_from_pieces [of sep "[]" x s] by (simp add: py_split_def)

lemma split_from_nonempty: "split_from sep cur s \<noteq> []"
  by (induction s arbitrary: cur) auto

lemma py_split_nonempty: "py_split sep s \<noteq> []"
  by (simp add: py_split_def split_from_nonempty)

lemma set_py_strip: "set (py_strip x) \<subseteq> set x"
  by (auto simp: py_strip_def dest!: set_dropWhileD)

lemma set_py_join: "set (py_join sep ls) \<subseteq> set sep \<union> \<Union> (set ` set ls)"
  by (induction sep ls rule: py_join.induct) auto

lemma unescape_basic_id: "CHR ''&'' \<notin> set t \<Longrightarrow> unescape_basic t = t"
  by (induction t) auto

section \<open>The caption normalizer\<close>

lemma clean_loop_done: "\<not> i < length lines \<Longrightarrow> clean_loop u lines i acc = acc"
  by (subst clean_loop.simps) simp

lemma clean_loop_step:
  "i < length lines \<Longrightarrow>
   clean_loop u lines i acc =
     (if kept (py_strip (lines ! i))
      then clean_loop u lines (Suc i) (acc @ [u (py_strip (lines ! i))])
      else clean_loop u lines (Suc i) acc)"
  by (subst clean_loop.simps) (simp add: clean_body_def Let_def kept_def discarded_def)

lemma clean_loop_filter:
  "clean_loop u lines i acc =
     acc @ map u (filter kept (map py_strip (drop i lines)))"
proof (induction "length lines - i" arbitrary: i acc)
  case 0
  then show ?case by (simp add: clean_loop_done)
next
  case (Suc n)
  then have lt: "i < length lines" and n: "n = length lines - Suc i"
    by simp_all
  have d: "drop i lines = lines ! i # drop (Suc i) lines"
    using lt by (simp add: Cons_nth_drop_Suc)
  show ?case
    by (simp add: clean_loop_step [OF lt] Suc.hyps(1) [OF n] d)
qed

lemma clean_srt_eq: "clean_srt_to_plain_text u s = normalize_spec u s"
  by (simp add: clean_srt_to_plain_text_def normalize_spec_def clean_loop_filter)

lemma py_strip_trimmed: "py_strip x \<noteq> [] \<Longrightarrow> trimmed (py_strip x)"
proof -
  assume ne: "py_strip x \<noteq> []"
  define z where "z = dropWhile py_isspace x"
  define w where "w = dropWhile py_isspace (rev z)"
  have s: "py_strip x = rev w" by (simp add: py_strip_def w_def z_def)
  with ne have wne: "w \<noteq> []" by simp
  then have zne: "z \<noteq> []" by (auto simp: w_def)
  have hz: "\<not> py_isspace (hd z)"
    using zne unfolding z_def by (simp add: hd_dropWhile)
  have hw: "\<not> py_isspace (hd w)"
    using wne unfolding w_def by (simp add: hd_dropWhile)
  have "suffix w (rev z)"
    unfolding w_def by (rule suffix_dropWhile)
  then obtain p where "rev z = p @ w" by (auto simp: suffix_def)
  with wne have "last w = last (rev z)" by simp
  also have "\<dots> = hd z" using zne by (simp add: last_rev)
  finally have lw: "\<not> py_isspace (last w)" using hz by simp
  show ?thesis
    using wne hw lw by (simp add: trimmed_def s hd_rev last_rev)
qed

lemma py_strip_id: "trimmed l \<Longrightarrow> py_strip l = l"
proof -
  assume t: "trimmed l"
  then have 1: "dropWhile py_isspace l = l"
    by (cases l) (auto simp: trimmed_def)
  from t have "rev l \<noteq> []" "\<not> py_isspace (hd (rev l))"
    by (auto simp: trimmed_def hd_rev)
  then have 2: "dropWhile py_isspace (rev l) = rev l"
    by (cases "rev l") auto
  show ?thesis by (simp add: py_strip_def 1 2)
qed

lemma trimmed_join:
  "ls \<noteq> [] \<Longrightarrow> \<forall>l\<in>set ls. trimmed l \<Longrightarrow> trimmed (py_join '' '' ls)"
  by (induction "'' ''" ls rule: py_join.induct) (auto simp: trimmed_def)

lemma kept_join:
  "ls \<noteq> [] \<Longrightarrow> \<forall>l\<in>set ls. kept l \<Longrightarrow> kept (py_join '' '' ls)"
proof (induction "'' ''" ls rule: py_join.induct)
  case 1
  then show ?case by simp
next
  case (2 x)
  then show ?case by simp
next
  case (3 x y ys)
  then have kx: "kept x" and kr: "kept (py_join '' '' (y # ys))"
    by simp_all
  have "\<not> sublist ''-->'' (x @ CHR '' '' # py_join '' '' (y # ys))"
    using sublist_sep [of "CHR '' ''" "''-->''" x "py_join '' '' (y # ys)"] kx kr
    by (auto simp: kept_def discarded_def py_contains_sublist)
  then show ?case
    by (simp add: kept_def discarded_def py_contains_sublist py_isdigit_def py_isdigit_char_def)
qed

lemma normalize_spec_fixed:
  assumes ls: "\<forall>l\<in>set ls. kept l \<and> trimmed l \<and> CHR 0x0A \<notin> set l \<and> CHR ''&'' \<notin> set l"
    and hu: "\<forall>t. CHR ''&'' \<notin> set t \<longrightarrow> u t = t"
  shows "normalize_spec u (py_join '' '' ls) = py_join '' '' ls"
proof (cases "ls = []")
  case True
  then show ?thesis
    by (simp add: normalize_spec_def py_split_def py_strip_def kept_def discarded_def)
next
  case False
  let ?y = "py_join '' '' ls"
  have chars: "set ?y \<subseteq> set '' '' \<union> \<Union> (set ` set ls)"
    by (rule set_py_join)
  have nl: "CHR 0x0A \<notin> set ?y" and amp: "CHR ''&'' \<notin> set ?y"
    using chars ls by auto
  have k: "kept ?y" and t: "trimmed ?y"
    using False ls by (simp_all add: kept_join trimmed_join)
  show ?thesis
    using hu amp by (simp add: normalize_spec_def py_split_no_sep [OF nl] py_strip_id [OF t] k)
qed

lemma kept_lines:
  assumes l: "l \<in> set (filter kept (map py_strip (py_split (CHR 0x0A) s)))"
  shows "kept l \<and> trimmed l \<and> CHR 0x0A \<notin> set l \<and> set l \<subseteq> set s"
proof -
  from l obtain x where x: "x \<in> set (py_split (CHR 0x0A) s)" and lx: "l = py_strip x"
    and k: "kept l"
    by auto
  from k have "l \<noteq> []" by (simp add: kept_def discarded_def)
  then have t: "trimmed l" unfolding lx by (rule py_strip_trimmed)
  from py_split_pieces [OF x] set_py_strip [of x]
  have "CHR 0x0A \<notin> set l" and "set l \<subseteq> set s"
    unfolding lx by auto
  with k t show ?thesis by simp
qed

text \<open>
  Claim C8. For every input string the normalizer scans the lines in order, discards
  exactly the lines that are empty, purely numeric or contain the separator \<open>-->\<close>,
  decodes every remaining line and joins the decoded lines by single spaces. Every line
  is taken trimmed (\<open>line = lines[i].strip()\<close>), for the three tests and for the text
  that is decoded; \<open>normalize_spec\<close> is this description, and the loop of the source
  computes it, whatever \<open>html.unescape\<close> is.
\<close>

theorem normalizer_discards_and_joins:
  "clean_srt_to_plain_text u s = normalize_spec u s
   \<and> normalize_spec u s =
       py_join '' ''
         (map u (filter (\<lambda>l. \<not> (l = [] \<or> py_isdigit l \<or> py_contains ''-->'' l))
                   (map py_strip (py_split (CHR 0x0A) s))))"
proof -
  have "kept = (\<lambda>l. \<not> (l = [] \<or> py_isdigit l \<or> py_contains ''-->'' l))"
    by (rule ext) (simp add: kept_def discarded_def)
  then show ?thesis
    by (simp add: clean_srt_eq normalize_spec_def)
qed

theorem normalizer_discards_and_joins_witness:
  "clean_srt_to_plain_text unescape_basic demo_srt = ''Tom & Jerry run <fast>''"
proof -
  have "normalize_spec unescape_basic demo_srt = ''Tom & Jerry run <fast>''"
    by (simp add: normalize_spec_def demo_srt_def py_split_def py_strip_def py_isspace_def
        kept_def discarded_def py_isdigit_def py_isdigit_char_def)
  with normalizer_discards_and_joins [of unescape_basic demo_srt, THEN conjunct1]
  show ?thesis
    by simp
qed

text \<open>
  Claim C9, as stated, fails: the text \<open>&amp;amp;\<close> has no numeric line and no
  time-range separator, the normalizer turns it into \<open>&amp;\<close>, and normalizing that
  gives \<open>&\<close>. Entity decoding is not idempotent, so neither is the normalizer.
\<close>

theorem normalizer_not_idempotent_counterexample:
  "already_plain ''&amp;amp;''
   \<and> clean_srt_to_plain_text unescape_basic ''&amp;amp;'' = ''&amp;''
   \<and> clean_srt_to_plain_text unescape_basic
         (clean_srt_to_plain_text unescape_basic ''&amp;amp;'') = ''&''
   \<and> clean_srt_to_plain_text unescape_basic
         (clean_srt_to_plain_text unescape_basic ''&amp;amp;'')
       \<noteq> clean_srt_to_plain_text unescape_basic ''&amp;amp;''"
proof -
  have 1: "clean_srt_to_plain_text unescape_basic ''&amp;amp;'' = ''&amp;''"
    by (simp add: clean_srt_eq normalize_spec_def py_split_def py_strip_def py_isspace_def
        kept_def discarded_def py_isdigit_def py_isdigit_char_def)
  have 2: "clean_srt_to_plain_text unescape_basic ''&amp;'' = ''&''"
    by (simp add: clean_srt_eq normalize_spec_def py_split_def py_strip_def py_isspace_def
        kept_def discarded_def py_isdigit_def py_isdigit_char_def)
  have 3: "already_plain ''&amp;amp;''"
    by (simp add: already_plain_def py_split_def py_strip_def py_isspace_def
        py_isdigit_def py_isdigit_char_def)
  show ?thesis
    by (simp add: 1 2 3)
qed

text \<open>
  Claim C9, amended. \<open>html.unescape\<close> returns a string without \<open>&\<close> as it is (the
  hypothesis on \<open>u\<close>). For every input without \<open>&\<close>, normalizing the output of the
  normalizer gives the same string; and when the input is already plain text, the
  output is its trimmed lines that are not empty, joined by single spaces.
\<close>

theorem normalizer_idempotent_without_entities:
  assumes hu: "\<forall>t. CHR ''&'' \<notin> set t \<longrightarrow> u t = t"
    and s: "CHR ''&'' \<notin> set s"
  shows "clean_srt_to_plain_text u (clean_srt_to_plain_text u s) = clean_srt_to_plain_text u s
    \<and> (already_plain s \<longrightarrow>
         clean_srt_to_plain_text u s =
           py_join '' '' (filter (\<lambda>l. l \<noteq> []) (map py_strip (py_split (CHR 0x0A) s))))"
proof -
  let ?ls = "filter kept (map py_strip (py_split (CHR 0x0A) s))"
  have ls: "\<forall>l\<in>set ?ls. kept l \<and> trimmed l \<and> CHR 0x0A \<notin> set l \<and> CHR ''&'' \<notin> set l"
  proof
    fix l assume "l \<in> set ?ls"
    from kept_lines [OF this] s show "kept l \<and> trimmed l \<and> CHR 0x0A \<notin> set l \<and> CHR ''&'' \<notin> set l"
      by auto
  qed
  then have "map u ?ls = ?ls"
    using hu by (intro map_idI) blast
  then have out: "clean_srt_to_plain_text u s = py_join '' '' ?ls"
    by (simp add: clean_srt_eq normalize_spec_def)
  have idem: "clean_srt_to_plain_text u (clean_srt_to_plain_text u s) = clean_srt_to_plain_text u s"
    unfolding out by (simp add: clean_srt_eq normalize_spec_fixed [OF ls hu])
  have plain: "clean_srt_to_plain_text u s =
      py_join '' '' (filter (\<lambda>l. l \<noteq> []) (map py_strip (py_split (CHR 0x0A) s)))"
    if "already_plain s"
  proof -
    from that have "?ls = filter (\<lambda>l. l \<noteq> []) (map py_strip (py_split (CHR 0x0A) s))"
      unfolding already_plain_def list_all_iff
      by (intro filter_cong) (auto simp: kept_def discarded_def)
    with out show ?thesis by simp
  qed
  from idem plain show ?thesis by blast
qed

theorem normalizer_idempotent_without_entities_witness:
  "CHR ''&'' \<notin> set (py_join [CHR 0x0A] [''  Hello there '', [], ''world''])
   \<and> already_plain (py_join [CHR 0x0A] [''  Hello there '', [], ''world''])
   \<and> clean_srt_to_plain_text unescape_basic (py_join [CHR 0x0A] [''  Hello there '', [], ''world''])
       = ''Hello there world''
   \<and> clean_srt_to_plain_text unescape_basic ''Hello there world'' = ''Hello there world''"
proof -
  let ?s = "py_join [CHR 0x0A] [''  Hello there '', [], ''world'']"
  have hu: "\<forall>t. CHR ''&'' \<notin> set t \<longrightarrow> unescape_basic t = t"
    by (simp add: unescape_basic_id)
  have s: "CHR ''&'' \<notin> set ?s"
    by simp
  have p: "already_plain ?s"
    by (simp add: already_plain_def py_split_def py_strip_def py_isspace_def
        py_isdigit_def py_isdigit_char_def)
  have v: "py_join '' '' (filter (\<lambda>l. l \<noteq> []) (map py_strip (py_split (CHR 0x0A) ?s)))
      = ''Hello there world''"
    by (simp add: py_split_def py_strip_def py_isspace_def)
  from normalizer_idempotent_without_entities [OF hu s]
  have i: "clean_srt_to_plain_text unescape_basic (clean_srt_to_plain_text unescape_basic ?s)
      = clean_srt_to_plain_text unescape_basic ?s"
    and o: "already_plain ?s \<longrightarrow> clean_srt_to_plain_text unescape_basic ?s =
      py_join '' '' (filter (\<lambda>l. l \<noteq> []) (map py_strip (py_split (CHR 0x0A) ?s)))"
    by blast+
  from o p v have c: "clean_srt_to_plain_text unescape_basic ?s = ''Hello there world''"
    by simp
  from i have "clean_srt_to_plain_text unescape_basic ''Hello there world'' = ''Hello there world''"
    unfolding c .
  with s p c show ?thesis
    by blast
qed

section \<open>The quiz synthesizer\<close>

lemma py_find_absent: "(py_find c s = - 1) = (c \<notin> set s)"
  by (simp add: py_find_def)

lemma py_find_nonneg: "c \<in> set s \<Longrightarrow> 0 \<le> py_find c s"
  by (simp add: py_find_def)

lemma py_rfind_ge: "- 1 \<le> py_rfind c s"
proof -
  have "length (takeWhile (\<lambda>x. x \<noteq> c) (rev s)) \<le> length (rev s)"
    by (rule length_takeWhile_le)
  then show ?thesis
    by (simp add: py_rfind_def)
qed

lemma py_rfind_absent: "c \<notin> set s \<Longrightarrow> py_rfind c s = - 1"
  by (simp add: py_rfind_def)

lemma py_slice_to_zero: "0 \<le> a \<Longrightarrow> py_slice s a 0 = []"
  by (simp add: py_slice_def Let_def)

lemma py_slice_crossed: "0 \<le> a \<Longrightarrow> 0 \<le> b \<Longrightarrow> b \<le> a \<Longrightarrow> py_slice s a b = []"
  by (simp add: py_slice_def Let_def min_def)

lemma takeWhile_upto: "c \<notin> set pre \<Longrightarrow> takeWhile (\<lambda>x. x \<noteq> c) (pre @ c # rest) = pre"
  by (induction pre) auto

lemma py_find_first:
  "c \<notin> set pre \<Longrightarrow> py_find c (pre @ c # rest) = int (length pre)"
  by (simp add: py_find_def takeWhile_upto)

lemma py_rfind_last:
  assumes "c \<notin> set post"
  shows "py_rfind c (front @ c # post) = int (length front)"
proof -
  have "takeWhile (\<lambda>x. x \<noteq> c) (rev post @ c # rev front) = rev post"
    using assms by (simp add: takeWhile_upto)
  then show ?thesis
    by (simp add: py_rfind_def)
qed

lemma py_slice_middle:
  "py_slice (pre @ mid @ post) (int (length pre)) (int (length pre) + int (length mid)) = mid"
  by (simp add: py_slice_def Let_def min_def)

lemma bracket_slice:
  assumes pre: "CHR ''['' \<notin> set pre" and post: "CHR '']'' \<notin> set post"
  shows "py_slice (pre @ (CHR ''['' # inner @ [CHR '']'']) @ post)
           (py_find (CHR ''['') (pre @ (CHR ''['' # inner @ [CHR '']'']) @ post))
           (py_rfind (CHR '']'') (pre @ (CHR ''['' # inner @ [CHR '']'']) @ post) + 1)
         = CHR ''['' # inner @ [CHR '']'']"
proof -
  let ?mid = "CHR ''['' # inner @ [CHR '']'']"
  have f: "py_find (CHR ''['') (pre @ ?mid @ post) = int (length pre)"
    using py_find_first [OF pre, of "inner @ [CHR '']''] @ post"] by simp
  have "py_rfind (CHR '']'') ((pre @ CHR ''['' # inner) @ CHR '']'' # post)
      = int (length (pre @ CHR ''['' # inner))"
    by (rule py_rfind_last [OF post])
  then have r: "py_rfind (CHR '']'') (pre @ ?mid @ post) + 1 = int (length pre) + int (length ?mid)"
    by simp
  show ?thesis
    unfolding f r by (rule py_slice_middle)
qed

lemma parse_response_no_open:
  "CHR ''['' \<notin> set reply \<Longrightarrow> parse_response loads reply = Inr (QError invalid_format_message)"
  by (simp add: parse_response_def Let_def py_find_def)

lemma parse_response_open:
  assumes "CHR ''['' \<in> set reply"
  shows "parse_response loads reply =
    (case loads (py_slice reply (py_find (CHR ''['') reply) (py_rfind (CHR '']'') reply + 1)) of
       Inr quiz_data \<Rightarrow> Inr (QSuccess quiz_data)
     | Inl e \<Rightarrow> (if is_JSONDecodeError e then Inr (QError parse_failed_message) else Inl e))"
proof -
  have "py_find (CHR ''['') reply \<noteq> - 1"
    using assms by (simp add: py_find_absent)
  moreover have "py_rfind (CHR '']'') reply + 1 \<noteq> - 1"
    using py_rfind_ge [of "CHR '']''" reply] by simp
  ultimately show ?thesis
    by (simp add: parse_response_def Let_def)
qed

lemma parse_response_no_close:
  assumes "CHR ''['' \<in> set reply" and "CHR '']'' \<notin> set reply"
  shows "py_slice reply (py_find (CHR ''['') reply) (py_rfind (CHR '']'') reply + 1) = []"
  using assms by (simp add: py_rfind_absent py_slice_to_zero py_find_nonneg)

lemma messages_differ: "invalid_format_message \<noteq> parse_failed_message"
  by (simp add: invalid_format_message_def parse_failed_message_def)

text \<open>
  Claim C5. \<open>json.loads\<close> rejects the empty text (the hypothesis on \<open>loads\<close>). Then for
  every reply of the generative service:
  \<^item> a reply without \<open>[\<close> or without \<open>]\<close> fails with \<open>MalformedResponse\<close>;
  \<^item> a reply that is prose without \<open>[\<close>, then a bracketed text, then prose without
    \<open>]\<close> has exactly the bracketed text parsed: its value is returned when it is JSON,
    and the step fails with \<open>MalformedResponse\<close> when it is not;
  \<^item> a reply whose last \<open>]\<close> stands before its first \<open>[\<close> has the empty slice, and
    fails with \<open>MalformedResponse\<close>;
  \<^item> \<open>generate_quiz\<close> and \<open>generate_quiz_from_description\<close> both return what this
    step returns on the reply they receive.
\<close>

theorem synthesizer_parsing_policy:
  assumes empty_text: "\<exists>m. loads [] = Inl (JSONDecodeError m)"
  shows "(CHR ''['' \<notin> set reply \<or> CHR '']'' \<notin> set reply \<longrightarrow>
            (\<exists>r. parse_response loads reply = Inr r \<and> malformed_response r))
    \<and> (CHR ''['' \<notin> set pre \<and> CHR '']'' \<notin> set post \<longrightarrow>
          (\<forall>v. loads (CHR ''['' # inner @ [CHR '']'']) = Inr v \<longrightarrow>
             parse_response loads (pre @ (CHR ''['' # inner @ [CHR '']'']) @ post)
               = Inr (QSuccess v))
        \<and> (\<forall>m. loads (CHR ''['' # inner @ [CHR '']'']) = Inl (JSONDecodeError m) \<longrightarrow>
             (\<exists>r. parse_response loads (pre @ (CHR ''['' # inner @ [CHR '']'']) @ post) = Inr r
                  \<and> malformed_response r)))
    \<and> (CHR ''['' \<in> set reply \<and> py_rfind (CHR '']'') reply < py_find (CHR ''['') reply \<longrightarrow>
          (\<exists>r. parse_response loads reply = Inr r \<and> malformed_response r))
    \<and> (generate_content sv (TranscriptPrompt title content n) = Inr (Inr reply) \<longrightarrow>
          generate_quiz sv content title n =
            (case parse_response (json_loads sv) reply of Inr r \<Rightarrow> r | Inl e \<Rightarrow> QError (str e)))
    \<and> (generate_content sv (DescriptionPrompt title content n) = Inr (Inr reply) \<longrightarrow>
          generate_quiz_from_description sv content title n =
            (case parse_response (json_loads sv) reply of Inr r \<Rightarrow> r | Inl e \<Rightarrow> QError (str e)))"
proof -
  from empty_text obtain m0 where m0: "loads [] = Inl (JSONDecodeError m0)" ..
  have missing: "\<exists>r. parse_response loads reply = Inr r \<and> malformed_response r"
    if "CHR ''['' \<notin> set reply \<or> CHR '']'' \<notin> set reply"
  proof (cases "CHR ''['' \<in> set reply")
    case False
    then show ?thesis
      by (simp add: parse_response_no_open)
  next
    case True
    with that have "CHR '']'' \<notin> set reply" by simp
    with True show ?thesis
      by (simp add: parse_response_open parse_response_no_close m0)
  qed
  have crossed: "\<exists>r. parse_response loads reply = Inr r \<and> malformed_response r"
    if "CHR ''['' \<in> set reply" and "py_rfind (CHR '']'') reply < py_find (CHR ''['') reply"
  proof -
    have "py_slice reply (py_find (CHR ''['') reply) (py_rfind (CHR '']'') reply + 1) = []"
      using that py_rfind_ge [of "CHR '']''" reply]
      by (intro py_slice_crossed) (simp_all add: py_find_nonneg)
    with that(1) show ?thesis
      by (simp add: parse_response_open m0)
  qed
  have bracketed: "parse_response loads (pre @ (CHR ''['' # inner @ [CHR '']'']) @ post) =
      (case loads (CHR ''['' # inner @ [CHR '']'']) of
         Inr quiz_data \<Rightarrow> Inr (QSuccess quiz_data)
       | Inl e \<Rightarrow> (if is_JSONDecodeError e then Inr (QError parse_failed_message) else Inl e))"
    if "CHR ''['' \<notin> set pre" and "CHR '']'' \<notin> set post"
    using bracket_slice [OF that, of inner]
    by (subst parse_response_open) simp_all
  have quiz: "generate_quiz sv content title n =
      (case parse_response (json_loads sv) reply of Inr r \<Rightarrow> r | Inl e \<Rightarrow> QError (str e))"
    if "generate_content sv (TranscriptPrompt title content n) = Inr (Inr reply)"
    using that by (simp add: generate_quiz_def synthesize_def)
  have descr: "generate_quiz_from_description sv content title n =
      (case parse_response (json_loads sv) reply of Inr r \<Rightarrow> r | Inl e \<Rightarrow> QError (str e))"
    if "generate_content sv (DescriptionPrompt title content n) = Inr (Inr reply)"
    using that by (simp add: generate_quiz_from_description_def synthesize_def)
  have slice: "(\<forall>v. loads (CHR ''['' # inner @ [CHR '']'']) = Inr v \<longrightarrow>
             parse_response loads (pre @ (CHR ''['' # inner @ [CHR '']'']) @ post)
               = Inr (QSuccess v))
        \<and> (\<forall>m. loads (CHR ''['' # inner @ [CHR '']'']) = Inl (JSONDecodeError m) \<longrightarrow>
             (\<exists>r. parse_response loads (pre @ (CHR ''['' # inner @ [CHR '']'']) @ post) = Inr r
                  \<and> malformed_response r))"
    if "CHR ''['' \<notin> set pre \<and> CHR '']'' \<notin> set post"
  proof -
    from that have "CHR ''['' \<notin> set pre" and "CHR '']'' \<notin> set post"
      by simp_all
    from bracketed [OF this] show ?thesis
      by simp
  qed
  from missing crossed slice quiz descr show ?thesis
    by blast
qed

theorem synthesizer_parsing_policy_witness:
  "parse_response json_loads_arrays (''Here is the quiz: '' @ ''[[],[]]'' @ '' Good luck!'')
     = Inr (QSuccess (JArray [JArray [], JArray []]))
   \<and> (\<exists>r. parse_response json_loads_arrays ''Sorry, there is nothing to ask about.'' = Inr r
          \<and> malformed_response r)
   \<and> (\<exists>r. parse_response json_loads_arrays (''A quiz: '' @ ''[[],,]'' @ '' (sorry)'') = Inr r
          \<and> malformed_response r)
   \<and> generate_quiz demo_services ''Hello world'' ''Owls'' 5
       = QSuccess (JArray [JArray [], JArray []])"
proof -
  have e: "\<exists>m. json_loads_arrays [] = Inl (JSONDecodeError m)"
    by (simp add: json_loads_arrays_def)
  have ok: "json_loads_arrays ''[[],[]]'' = Inr (JArray [JArray [], JArray []])"
    by (simp add: json_loads_arrays_def)
  have bad: "json_loads_arrays ''[[],,]'' = Inl (JSONDecodeError ''Expecting value'')"
    by (simp add: json_loads_arrays_def)
  have g: "generate_content demo_services (TranscriptPrompt ''Owls'' ''Hello world'' 5)
      = Inr (Inr ''Here is the quiz: [[],[]] Good luck!'')"
    by (simp add: demo_services_def)
  have j: "json_loads demo_services = json_loads_arrays"
    by (simp add: demo_services_def)
  note t1 = synthesizer_parsing_policy [where loads = json_loads_arrays
      and reply = "''Sorry, there is nothing to ask about.''"
      and pre = "''Here is the quiz: ''" and post = "'' Good luck!''" and inner = "''[],[]''"
      and sv = demo_services and title = "''Owls''" and content = "''Hello world''" and n = 5,
      OF e]
  note t2 = synthesizer_parsing_policy [where loads = json_loads_arrays
      and reply = "''Here is the quiz: [[],[]] Good luck!''"
      and pre = "''A quiz: ''" and post = "'' (sorry)''" and inner = "''[],,''"
      and sv = demo_services and title = "''Owls''" and content = "''Hello world''" and n = 5,
      OF e]
  have 1: "parse_response json_loads_arrays (''Here is the quiz: '' @ ''[[],[]]'' @ '' Good luck!'')
      = Inr (QSuccess (JArray [JArray [], JArray []]))"
    using t1 ok by simp
  have 2: "\<exists>r. parse_response json_loads_arrays ''Sorry, there is nothing to ask about.'' = Inr r
      \<and> malformed_response r"
    using t1 by simp
  have 3: "\<exists>r. parse_response json_loads_arrays (''A quiz: '' @ ''[[],,]'' @ '' (sorry)'') = Inr r
      \<and> malformed_response r"
    using t2 bad by simp
  have 4: "generate_quiz demo_services ''Hello world'' ''Owls'' 5
      = QSuccess (JArray [JArray [], JArray []])"
    using t2 g j 1 by simp
  from 1 2 3 4 show ?thesis by blast
qed

text \<open>
  Claim C10. \<open>end_idx\<close> is \<open>rfind(']') + 1\<close>, which is never \<open>-1\<close>. So the branch
  \<open>Invalid response format\<close> is taken exactly when the reply has no \<open>[\<close>; and for a reply
  with \<open>[\<close> and without \<open>]\<close>, \<open>end_idx\<close> is \<open>0\<close>, the slice is the empty string,
  \<open>json.loads\<close> is called on it, and when it rejects the empty string the result is the
  error of the \<open>JSONDecodeError\<close> handler.
\<close>

theorem end_index_never_minus_one:
  "py_rfind (CHR '']'') reply + 1 \<noteq> - 1
   \<and> ((parse_response loads reply = Inr (QError invalid_format_message))
        = (CHR ''['' \<notin> set reply))
   \<and> (CHR ''['' \<in> set reply \<and> CHR '']'' \<notin> set reply \<longrightarrow>
        py_rfind (CHR '']'') reply + 1 = 0
      \<and> py_slice reply (py_find (CHR ''['') reply) (py_rfind (CHR '']'') reply + 1) = []
      \<and> parse_response loads reply =
          (case loads [] of
             Inr quiz_data \<Rightarrow> Inr (QSuccess quiz_data)
           | Inl e \<Rightarrow> (if is_JSONDecodeError e then Inr (QError parse_failed_message) else Inl e))
      \<and> (\<forall>m. loads [] = Inl (JSONDecodeError m) \<longrightarrow>
            parse_response loads reply = Inr (QError parse_failed_message)))"
proof -
  have a: "py_rfind (CHR '']'') reply + 1 \<noteq> - 1"
    using py_rfind_ge [of "CHR '']''" reply] by simp
  have b: "(parse_response loads reply = Inr (QError invalid_format_message))
      = (CHR ''['' \<notin> set reply)"
  proof (cases "CHR ''['' \<in> set reply")
    case False
    then show ?thesis by (simp add: parse_response_no_open)
  next
    case True
    then show ?thesis
      using messages_differ
      by (auto simp: parse_response_open split: sum.splits if_splits)
  qed
  have c: "py_rfind (CHR '']'') reply + 1 = 0
      \<and> py_slice reply (py_find (CHR ''['') reply) (py_rfind (CHR '']'') reply + 1) = []
      \<and> parse_response loads reply =
          (case loads [] of
             Inr quiz_data \<Rightarrow> Inr (QSuccess quiz_data)
           | Inl e \<Rightarrow> (if is_JSONDecodeError e then Inr (QError parse_failed_message) else Inl e))
      \<and> (\<forall>m. loads [] = Inl (JSONDecodeError m) \<longrightarrow>
            parse_response loads reply = Inr (QError parse_failed_message))"
    if "CHR ''['' \<in> set reply" and "CHR '']'' \<notin> set reply"
    using that
    by (simp add: parse_response_open py_rfind_absent py_slice_to_zero py_find_nonneg)
  from a b c show ?thesis by blast
qed

theorem end_index_never_minus_one_witness:
  "py_rfind (CHR '']'') ''Sorry [no quiz'' + 1 = 0
   \<and> py_slice ''Sorry [no quiz'' (py_find (CHR ''['') ''Sorry [no quiz'')
        (py_rfind (CHR '']'') ''Sorry [no quiz'' + 1) = []
   \<and> parse_response json_loads_arrays ''Sorry [no quiz'' = Inr (QError parse_failed_message)
   \<and> parse_response json_loads_arrays ''Quiz: ]],]'' = Inr (QError invalid_format_message)"
proof -
  have e: "json_loads_arrays [] = Inl (JSONDecodeError ''Expecting value'')"
    by (simp add: json_loads_arrays_def)
  have h: "CHR ''['' \<in> set ''Sorry [no quiz'' \<and> CHR '']'' \<notin> set ''Sorry [no quiz''"
    by simp
  note t = end_index_never_minus_one [of "''Sorry [no quiz''" json_loads_arrays,
      THEN conjunct2, THEN conjunct2, rule_format, OF h]
  note t' = end_index_never_minus_one [of "''Quiz: ]],]''" json_loads_arrays,
      THEN conjunct2, THEN conjunct1]
  from t' have 4: "parse_response json_loads_arrays ''Quiz: ]],]'' = Inr (QError invalid_format_message)"
    by simp
  from t e 4 show ?thesis
    by blast
qed

section \<open>The URL parser\<close>

lemma split_from_first: "py_first (split_from sep cur s) = Inr (rev cur @ takeWhile (\<lambda>c. c \<noteq> sep) s)"
  by (induction s arbitrary: cur) (auto simp: py_first_def)

lemma py_first_split: "py_first (py_split sep s) = Inr (takeWhile (\<lambda>c. c \<noteq> sep) s)"
  by (simp add: py_split_def split_from_first)

lemma py_last_nonempty: "xs \<noteq> [] \<Longrightarrow> py_last xs = Inr (last xs)"
  by (cases xs rule: rev_cases) (simp_all add: py_last_def)

lemma takeWhile_snoc_sep:
  "takeWhile (\<lambda>c. c \<noteq> sep) (xs @ [sep]) = takeWhile (\<lambda>c. c \<noteq> sep) xs"
  by (induction xs) auto

lemma takeWhile_snoc_other:
  "sep \<in> set xs \<Longrightarrow> takeWhile (\<lambda>c. c \<noteq> sep) (xs @ ys) = takeWhile (\<lambda>c. c \<noteq> sep) xs"
  by (induction xs) auto

lemma takeWhile_all: "sep \<notin> set xs \<Longrightarrow> takeWhile (\<lambda>c. c \<noteq> sep) xs = xs"
  by (induction xs) auto

lemma split_from_last:
  "last (split_from sep cur s) =
     (if sep \<in> set s then rev (takeWhile (\<lambda>c. c \<noteq> sep) (rev s)) else rev cur @ s)"
proof (induction s arbitrary: cur)
  case Nil
  then show ?case by simp
next
  case (Cons c cs)
  show ?case
  proof (cases "c = sep")
    case True
    then show ?thesis
      using Cons.IH [of "[]"]
      by (simp add: split_from_nonempty takeWhile_snoc_sep takeWhile_snoc_other takeWhile_all)
  next
    case False
    then show ?thesis
      using Cons.IH [of "c # cur"]
      by (simp add: takeWhile_snoc_other)
  qed
qed

lemma py_last_split:
  "py_last (py_split sep s) = Inr (rev (takeWhile (\<lambda>c. c \<noteq> sep) (rev s)))"
proof -
  have "last (py_split sep s) = rev (takeWhile (\<lambda>c. c \<noteq> sep) (rev s))"
    by (simp add: py_split_def split_from_last takeWhile_all)
  then show ?thesis
    by (simp add: py_last_nonempty py_split_nonempty)
qed

text \<open>
  Claim C4. The code tests \<open>"youtu.be" in youtube_url\<close> first, on the whole URL. A
  watch URL with the parameter \<open>v\<close> whose query mentions \<open>youtu.be\<close> is taken for a
  short link: the \<open>urllib\<close> branch would read \<open>xyz789\<close> out of it, and the function
  returns \<open>watch\<close>. By the same test a URL of another site that mentions \<open>youtu.be\<close>
  yields a value instead of \<open>ValueError\<close>.
\<close>

theorem watch_url_taken_for_short_link:
  "urlparse_query demo_services ''https://www.youtube.com/watch?v=xyz789&feature=youtu.be''
     = Inr ''v=xyz789&feature=youtu.be''
   \<and> parse_qs demo_services ''v=xyz789&feature=youtu.be'' ''v'' = Some [''xyz789'']
   \<and> extract_video_id demo_services ''https://www.youtube.com/watch?v=xyz789&feature=youtu.be''
       = Inr ''watch''
   \<and> extract_video_id demo_services ''https://vimeo.com/12345?ref=youtu.be'' = Inr ''12345''"
proof -
  have q: "urlparse_query demo_services ''https://www.youtube.com/watch?v=xyz789&feature=youtu.be''
      = Inr ''v=xyz789&feature=youtu.be''"
    by (simp add: demo_services_def demo_query_def)
  have v: "parse_qs demo_services ''v=xyz789&feature=youtu.be'' ''v'' = Some [''xyz789'']"
    by (simp add: demo_services_def demo_parse_qs_def py_split_def)
  have w: "extract_video_id demo_services
      ''https://www.youtube.com/watch?v=xyz789&feature=youtu.be'' = Inr ''watch''"
    by (simp add: extract_video_id_def py_last_split py_first_split)
  have o: "extract_video_id demo_services ''https://vimeo.com/12345?ref=youtu.be'' = Inr ''12345''"
    by (simp add: extract_video_id_def py_last_split py_first_split)
  from q v w o show ?thesis
    by blast
qed

section \<open>The primary strategy\<close>

lemma find_exists:
  "\<exists>x\<in>set xs. P x \<Longrightarrow> \<exists>y. List.find P xs = Some y \<and> P y \<and> y \<in> set xs"
  by (induction xs) auto

lemma find_none: "\<forall>x\<in>set xs. \<not> P x \<Longrightarrow> List.find P xs = None"
  by (simp add: find_None_iff)

lemma select_english:
  assumes "\<exists>t\<in>set tracks. language_code t = ''en''"
  shows "\<exists>t\<in>set tracks. language_code t = ''en'' \<and> select_transcript tracks = Inr (Selected t)"
proof -
  from find_exists [of tracks "\<lambda>t. language_code t = ''en''", OF assms]
  obtain y where "List.find (\<lambda>t. language_code t = ''en'') tracks = Some y"
    and "language_code y = ''en''" and "y \<in> set tracks"
    by blast
  then show ?thesis
    by (auto simp: select_transcript_def)
qed

lemma select_variant:
  assumes no_en: "\<forall>t\<in>set tracks. language_code t \<noteq> ''en''"
    and some: "\<exists>t\<in>set tracks. language_code t = ''en-US'' \<or> language_code t = ''en-GB''"
  shows "\<exists>t\<in>set tracks. (language_code t = ''en-US'' \<or> language_code t = ''en-GB'')
           \<and> select_transcript tracks = Inr (Selected t)"
proof -
  have en: "List.find (\<lambda>t. language_code t = ''en'') tracks = None"
    using no_en by (simp add: find_none)
  show ?thesis
  proof (cases "\<exists>t\<in>set tracks. language_code t = ''en-US''")
    case True
    from find_exists [of tracks "\<lambda>t. language_code t = ''en-US''", OF True]
    obtain y where "List.find (\<lambda>t. language_code t = ''en-US'') tracks = Some y"
      and "language_code y = ''en-US''" and "y \<in> set tracks"
      by blast
    with en show ?thesis
      by (auto simp: select_transcript_def)
  next
    case False
    then have us: "List.find (\<lambda>t. language_code t = ''en-US'') tracks = None"
      by (simp add: find_none)
    from False some have "\<exists>t\<in>set tracks. language_code t = ''en-GB''"
      by blast
    from find_exists [of tracks "\<lambda>t. language_code t = ''en-GB''", OF this]
    obtain y where "List.find (\<lambda>t. language_code t = ''en-GB'') tracks = Some y"
      and "language_code y = ''en-GB''" and "y \<in> set tracks"
      by blast
    with en us show ?thesis
      by (auto simp: select_transcript_def)
  qed
qed

lemma select_without_english:
  assumes none: "\<forall>t\<in>set tracks. language_code t \<notin> {''en'', ''en-US'', ''en-GB''}"
  shows "select_transcript tracks = Inl (TypeError not_subscriptable_message)"
proof -
  have "List.find (\<lambda>t. language_code t = ''en'') tracks = None"
    and "List.find (\<lambda>t. language_code t = ''en-US'') tracks = None"
    and "List.find (\<lambda>t. language_code t = ''en-GB'') tracks = None"
    using none by (simp_all add: find_none)
  then show ?thesis
    by (simp add: select_transcript_def transcript_list_item_def)
qed

lemma transcript_without_english:
  assumes listed: "list_transcripts sv video_id = Inr tracks"
    and none: "\<forall>t\<in>set tracks. language_code t \<notin> {''en'', ''en-US'', ''en-GB''}"
  shows "get_video_transcript sv video_id =
    TError (''Error retrieving transcript: '' @ not_subscriptable_message)"
  by (simp add: get_video_transcript_def transcript_body_def listed
      select_without_english [OF none])

lemma transcript_selected:
  assumes "list_transcripts sv video_id = Inr tracks"
    and "select_transcript tracks = Inr (Selected t)" and "fetch t = Inr parts"
  shows "get_video_transcript sv video_id = TSuccess (py_join '' '' parts)"
  using assms by (simp add: get_video_transcript_def transcript_body_def)

text \<open>
  Claim C7. A track \<open>en\<close>, and after it a track \<open>en-US\<close> or \<open>en-GB\<close>, is selected and
  fetched as the claim says (\<open>select_english\<close>, \<open>select_variant\<close>,
  \<open>transcript_selected\<close>). Without such a track the code does not do what the claim
  says: \<open>transcript_list[0]\<close> raises \<open>TypeError\<close>, which \<open>except IndexError\<close> does not
  catch, so no translation is requested and the answer is the message of the outer
  handler. The video \<open>german\<close> has a German track with an English translation, and
  \<open>empty\<close> has no track at all: neither gets the translation or the message
  \<open>No transcript available\<close>.
\<close>

theorem first_track_never_translated:
  "list_transcripts demo_services ''german'' = Inr [demo_german, demo_track ''fr'' [''Bonjour'']]
   \<and> translate demo_german ''en'' = Inr (demo_track ''en'' [''Hello'', ''world''])
   \<and> get_video_transcript demo_services ''german''
       = TError (''Error retrieving transcript: '' @ not_subscriptable_message)
   \<and> list_transcripts demo_services ''empty'' = Inr []
   \<and> get_video_transcript demo_services ''empty''
       = TError (''Error retrieving transcript: '' @ not_subscriptable_message)
   \<and> ''Error retrieving transcript: '' @ not_subscriptable_message \<noteq> no_transcript_message"
proof -
  have german: "list_transcripts demo_services ''german''
      = Inr [demo_german, demo_track ''fr'' [''Bonjour'']]"
    and empty: "list_transcripts demo_services ''empty'' = Inr []"
    by (simp_all add: demo_services_def)
  have tr: "translate demo_german ''en'' = Inr (demo_track ''en'' [''Hello'', ''world''])"
    by (simp add: demo_german_def)
  have none: "\<forall>t\<in>set [demo_german, demo_track ''fr'' [''Bonjour'']].
      language_code t \<notin> {''en'', ''en-US'', ''en-GB''}"
    by (simp add: demo_german_def demo_track_def)
  have g: "get_video_transcript demo_services ''german''
      = TError (''Error retrieving transcript: '' @ not_subscriptable_message)"
    by (rule transcript_without_english [OF german none])
  have e: "get_video_transcript demo_services ''empty''
      = TError (''Error retrieving transcript: '' @ not_subscriptable_message)"
    by (rule transcript_without_english [OF empty]) simp
  have m: "''Error retrieving transcript: '' @ not_subscriptable_message \<noteq> no_transcript_message"
    by (simp add: no_transcript_message_def)
  from german tr g empty e m show ?thesis
    by blast
qed

section \<open>The request handler\<close>

lemma get_video_info_cases:
  "get_video_info sv video_id =
     (case videos_list sv video_id of
        Inl e \<Rightarrow> IError (if is_HttpError e then ''YouTube API error: '' @ str e else str e)
      | Inr [] \<Rightarrow> IError ''Video not found. Please check the URL and try again.''
      | Inr (item # _) \<Rightarrow> ISuccess (fst item) (snd item) video_id)"
  by (simp add: get_video_info_def split: sum.splits list.splits prod.splits)

lemma process_info_error:
  assumes "youtube_url req = Some url" and "url \<noteq> []"
    and "extract_video_id sv url = Inr vid"
    and "get_video_info sv vid = IError m"
  shows "process_youtube_video sv req = ((ErrorBody m, 500), [CallVideoInfo vid])"
  using assms by (simp add: process_youtube_video_def Let_def)

lemma process_transcript:
  assumes "youtube_url req = Some url" and "url \<noteq> []"
    and "extract_video_id sv url = Inr vid"
    and "get_video_info sv vid = ISuccess title description vid'"
    and "get_video_transcript sv vid = TSuccess text"
  shows "process_youtube_video sv req =
    (case generate_quiz sv text title (requested_questions req) of
       QError m \<Rightarrow>
         ((ErrorBody m, 500),
          [CallVideoInfo vid, CallTranscript vid,
           CallGenerateQuiz text title (requested_questions req)])
     | QSuccess quiz \<Rightarrow>
         ((SuccessBody title quiz ''transcript'', 200),
          [CallVideoInfo vid, CallTranscript vid,
           CallGenerateQuiz text title (requested_questions req)]))"
  using assms by (simp add: process_youtube_video_def Let_def split: quiz_result.splits)

lemma process_captions:
  assumes "youtube_url req = Some url" and "url \<noteq> []"
    and "extract_video_id sv url = Inr vid"
    and "get_video_info sv vid = ISuccess title description vid'"
    and "get_video_transcript sv vid = TError m1"
    and "get_captions_from_youtube_api sv vid = Inr (TSuccess text)"
  shows "process_youtube_video sv req =
    (case generate_quiz sv text title (requested_questions req) of
       QError m \<Rightarrow>
         ((ErrorBody m, 500),
          [CallVideoInfo vid, CallTranscript vid, CallCaptions vid,
           CallGenerateQuiz text title (requested_questions req)])
     | QSuccess quiz \<Rightarrow>
         ((SuccessBody title quiz ''transcript'', 200),
          [CallVideoInfo vid, CallTranscript vid, CallCaptions vid,
           CallGenerateQuiz text title (requested_questions req)]))"
  using assms by (simp add: process_youtube_video_def Let_def split: quiz_result.splits)

lemma process_description:
  assumes "youtube_url req = Some url" and "url \<noteq> []"
    and "extract_video_id sv url = Inr vid"
    and "get_video_info sv vid = ISuccess title description vid'"
    and "get_video_transcript sv vid = TError m1"
    and "get_captions_from_youtube_api sv vid = Inr (TError m2)"
  shows "process_youtube_video sv req =
    (case generate_quiz_from_description sv description title (requested_questions req) of
       QError m \<Rightarrow>
         ((ErrorBody m, 500),
          [CallVideoInfo vid, CallTranscript vid, CallCaptions vid,
           CallGenerateQuizFromDescription description title (requested_questions req)])
     | QSuccess quiz \<Rightarrow>
         ((SuccessBody title quiz ''description'', 200),
          [CallVideoInfo vid, CallTranscript vid, CallCaptions vid,
           CallGenerateQuizFromDescription description title (requested_questions req)]))"
  using assms by (simp add: process_youtube_video_def Let_def split: quiz_result.splits)

lemma process_captions_raise:
  assumes "youtube_url req = Some url" and "url \<noteq> []"
    and "extract_video_id sv url = Inr vid"
    and "get_video_info sv vid = ISuccess title description vid'"
    and "get_video_transcript sv vid = TError m1"
    and "get_captions_from_youtube_api sv vid = Inl e"
  shows "process_youtube_video sv req =
    (handle_exception e, [CallVideoInfo vid, CallTranscript vid, CallCaptions vid])"
  using assms by (simp add: process_youtube_video_def Let_def)

lemma handle_exception_not_success: "handle_exception e \<noteq> (SuccessBody t q src, c)"
  by (simp add: handle_exception_def)

lemma success_source:
  assumes "process_youtube_video sv req = ((SuccessBody t q src, c), calls)"
  shows "src = ''transcript'' \<or> src = ''description''"
proof (cases "youtube_url req")
  case None
  with assms show ?thesis
    by (simp add: process_youtube_video_def Let_def)
next
  case (Some url)
  show ?thesis
  proof (cases "url = []")
    case True
    with Some assms show ?thesis
      by (simp add: process_youtube_video_def Let_def)
  next
    case ne: False
    show ?thesis
    proof (cases "extract_video_id sv url")
      case (Inl e)
      with Some ne assms show ?thesis
        by (simp add: process_youtube_video_def Let_def handle_exception_not_success)
    next
      case (Inr vid)
      show ?thesis
      proof (cases "get_video_info sv vid")
        case (IError m)
        from process_info_error [OF Some ne Inr IError] assms show ?thesis
          by simp
      next
        case (ISuccess title description vid')
        show ?thesis
        proof (cases "get_video_transcript sv vid")
          case (TSuccess content)
          from process_transcript [OF Some ne Inr ISuccess TSuccess] assms show ?thesis
            by (simp split: quiz_result.splits)
        next
          case (TError m1)
          show ?thesis
          proof (cases "get_captions_from_youtube_api sv vid")
            case (Inl e)
            from process_captions_raise [OF Some ne Inr ISuccess TError Inl] assms show ?thesis
              by (auto simp: handle_exception_def split: if_splits)
          next
            case r: (Inr r)
            show ?thesis
            proof (cases r)
              case (TSuccess content)
              from process_captions [OF Some ne Inr ISuccess TError r [unfolded TSuccess]] assms
              show ?thesis
                by (simp split: quiz_result.splits)
            next
              case (TError m2)
              from process_description [OF Some ne Inr ISuccess \<open>get_video_transcript sv vid = TError m1\<close>
                  r [unfolded TError]] assms
              show ?thesis
                by (simp split: quiz_result.splits)
            qed
          qed
        qed
      qed
    qed
  qed
qed

subsection \<open>The concrete world\<close>

lemma demo_extract:
  "extract_video_id demo_services ''https://youtu.be/talk'' = Inr ''talk''"
  "extract_video_id demo_services ''https://youtu.be/subbed?t=5'' = Inr ''subbed''"
  "extract_video_id demo_services ''https://youtu.be/silent'' = Inr ''silent''"
  "extract_video_id demo_services ''https://youtu.be/blank'' = Inr ''blank''"
  "extract_video_id demo_services ''https://youtu.be/gone'' = Inr ''gone''"
  by (simp_all add: extract_video_id_def py_last_split py_first_split)

lemma demo_info:
  "get_video_info demo_services ''talk'' = ISuccess ''Owls'' ''A film about owls'' ''talk''"
  "get_video_info demo_services ''subbed'' = ISuccess ''Owls'' ''A film about owls'' ''subbed''"
  "get_video_info demo_services ''silent'' = ISuccess ''Owls'' ''A film about owls'' ''silent''"
  "get_video_info demo_services ''blank'' = ISuccess ''Blank'' [] ''blank''"
  "get_video_info demo_services ''gone''
     = IError ''Video not found. Please check the URL and try again.''"
  by (simp_all add: get_video_info_def demo_services_def)

lemma demo_transcript:
  "get_video_transcript demo_services ''talk'' = TSuccess ''Hello world''"
  "get_video_transcript demo_services ''subbed'' = TError no_transcript_message"
  "get_video_transcript demo_services ''silent'' = TError no_transcript_message"
  "get_video_transcript demo_services ''blank'' = TError no_transcript_message"
  by (simp_all add: get_video_transcript_def transcript_body_def select_transcript_def
      demo_services_def demo_track_def)

lemma demo_srt_clean:
  "clean_srt_to_plain_text unescape_basic demo_srt = ''Tom & Jerry run <fast>''"
  by (simp add: clean_srt_eq normalize_spec_def demo_srt_def py_split_def py_strip_def
      py_isspace_def kept_def discarded_def py_isdigit_def py_isdigit_char_def)

lemma demo_captions:
  "get_captions_from_youtube_api demo_services ''subbed'' = Inr (TSuccess ''Tom & Jerry run <fast>'')"
  "get_captions_from_youtube_api demo_services ''silent''
     = Inr (TError ''No captions available for this video'')"
  "get_captions_from_youtube_api demo_services ''blank''
     = Inr (TError ''No captions available for this video'')"
  by (simp_all add: get_captions_from_youtube_api_def captions_body_def demo_services_def
      demo_srt_clean Let_def)

lemma demo_reply_quiz:
  "parse_response json_loads_arrays ''Here is the quiz: [[],[]] Good luck!''
     = Inr (QSuccess (JArray [JArray [], JArray []]))"
  using bracket_slice [of "''Here is the quiz: ''" "'' Good luck!''" "''[],[]''"]
  by (simp add: parse_response_open json_loads_arrays_def)

lemma demo_reply_bare:
  "parse_response json_loads_arrays ''[[]]'' = Inr (QSuccess (JArray [JArray []]))"
  using bracket_slice [of "[]" "[]" "''[]''"]
  by (simp add: parse_response_open json_loads_arrays_def)

lemma demo_quiz:
  "generate_quiz demo_services content ''Owls'' 5 = QSuccess (JArray [JArray [], JArray []])"
  "generate_quiz_from_description demo_services ''A film about owls'' ''Owls'' 5
     = QSuccess (JArray [JArray []])"
  "generate_quiz_from_description demo_services [] ''Blank'' 5 = QError invalid_format_message"
  by (simp_all add: generate_quiz_def generate_quiz_from_description_def synthesize_def
      demo_services_def demo_reply_quiz demo_reply_bare parse_response_no_open)

lemma demo_request_fields:
  "youtube_url (demo_request url) = Some url"
  "requested_questions (demo_request url) = 5"
  by (simp_all add: demo_request_def requested_questions_def)

subsection \<open>The claims about the handler\<close>

text \<open>
  Claim C1, as stated, fails: for the video \<open>blank\<close> the metadata lookup succeeds, the
  transcript lookup and the caption fallback both return a failure, and the response is
  the error of the synthesizer, which has no content source.
\<close>

theorem description_response_untagged_counterexample:
  "get_video_info demo_services ''blank'' = ISuccess ''Blank'' [] ''blank''
   \<and> get_video_transcript demo_services ''blank'' = TError no_transcript_message
   \<and> get_captions_from_youtube_api demo_services ''blank''
       = Inr (TError ''No captions available for this video'')
   \<and> process_youtube_video demo_services (demo_request ''https://youtu.be/blank'')
       = ((ErrorBody ''Invalid response format from Gemini API'', 500),
          [CallVideoInfo ''blank'', CallTranscript ''blank'', CallCaptions ''blank'',
           CallGenerateQuizFromDescription [] ''Blank'' 5])"
proof -
  have "process_youtube_video demo_services (demo_request ''https://youtu.be/blank'')
       = ((ErrorBody ''Invalid response format from Gemini API'', 500),
          [CallVideoInfo ''blank'', CallTranscript ''blank'', CallCaptions ''blank'',
           CallGenerateQuizFromDescription [] ''Blank'' 5])"
    using process_description [OF demo_request_fields(1) _ demo_extract(4) demo_info(4)
        demo_transcript(4) demo_captions(3)]
    by (simp add: demo_request_fields demo_quiz invalid_format_message_def)
  then show ?thesis
    by (simp add: demo_info demo_transcript demo_captions)
qed

text \<open>
  Claim C1, amended. For every request whose metadata lookup succeeds, if the transcript
  lookup returns a failure and the caption fallback returns a failure too, the
  description is the content given to the synthesizer
  (\<open>generate_quiz_from_description\<close>), after the three lookups and nothing else; when
  the synthesis succeeds the response has the content source \<open>description\<close>, and when
  it fails the response is its error with the status 500.
\<close>

theorem description_fallback:
  assumes "youtube_url req = Some url" and "url \<noteq> []"
    and "extract_video_id sv url = Inr vid"
    and "get_video_info sv vid = ISuccess title description vid'"
    and "get_video_transcript sv vid = TError m1"
    and "get_captions_from_youtube_api sv vid = Inr (TError m2)"
  shows "snd (process_youtube_video sv req) =
      [CallVideoInfo vid, CallTranscript vid, CallCaptions vid,
       CallGenerateQuizFromDescription description title (requested_questions req)]
    \<and> (\<forall>quiz. generate_quiz_from_description sv description title (requested_questions req)
                 = QSuccess quiz \<longrightarrow>
          fst (process_youtube_video sv req) = (SuccessBody title quiz ''description'', 200))
    \<and> (\<forall>m. generate_quiz_from_description sv description title (requested_questions req)
              = QError m \<longrightarrow>
          fst (process_youtube_video sv req) = (ErrorBody m, 500))"
  by (simp add: process_description [OF assms] split: quiz_result.splits)

theorem description_fallback_witness:
  "process_youtube_video demo_services (demo_request ''https://youtu.be/silent'')
     = ((SuccessBody ''Owls'' (JArray [JArray []]) ''description'', 200),
        [CallVideoInfo ''silent'', CallTranscript ''silent'', CallCaptions ''silent'',
         CallGenerateQuizFromDescription ''A film about owls'' ''Owls'' 5])"
proof -
  have ne: "''https://youtu.be/silent'' \<noteq> []" by simp
  from description_fallback [OF demo_request_fields(1) ne demo_extract(3) demo_info(3)
      demo_transcript(3) demo_captions(2)]
  show ?thesis
    by (simp add: demo_request_fields demo_quiz prod_eq_iff)
qed

text \<open>
  Claim C2. For every request, if the metadata lookup fails (the video is not found, or
  the metadata API raises), the handler answers with that failure and the status 500,
  and the metadata lookup is the only call it has made: no transcript lookup, no caption
  fallback, no quiz synthesis.
\<close>

theorem metadata_failure_is_hard_stop:
  assumes "youtube_url req = Some url" and "url \<noteq> []"
    and "extract_video_id sv url = Inr vid"
  shows "(\<forall>m. get_video_info sv vid = IError m \<longrightarrow>
            process_youtube_video sv req = ((ErrorBody m, 500), [CallVideoInfo vid]))
    \<and> (videos_list sv vid = Inr [] \<longrightarrow>
          get_video_info sv vid = IError ''Video not found. Please check the URL and try again.'')
    \<and> (\<forall>e. videos_list sv vid = Inl e \<longrightarrow>
          get_video_info sv vid =
            IError (if is_HttpError e then ''YouTube API error: '' @ str e else str e))"
  using process_info_error [OF assms] by (simp add: get_video_info_cases)

theorem metadata_failure_is_hard_stop_witness:
  "process_youtube_video demo_services (demo_request ''https://youtu.be/gone'')
     = ((ErrorBody ''Video not found. Please check the URL and try again.'', 500),
        [CallVideoInfo ''gone''])"
proof -
  have ne: "''https://youtu.be/gone'' \<noteq> []" by simp
  from metadata_failure_is_hard_stop [OF demo_request_fields(1) ne demo_extract(5)] demo_info(5)
  show ?thesis
    by blast
qed

text \<open>
  Claim C3. For every request, if the transcript lookup returns success, the caption
  fallback is not called for any video; when the metadata lookup has succeeded the calls
  are the metadata lookup, the transcript lookup and the synthesis from the transcript.
\<close>

theorem transcript_success_short_circuits:
  assumes "youtube_url req = Some url" and "url \<noteq> []"
    and "extract_video_id sv url = Inr vid"
    and "get_video_transcript sv vid = TSuccess content"
  shows "(\<forall>v. CallCaptions v \<notin> set (snd (process_youtube_video sv req)))
    \<and> (\<forall>title description vid'. get_video_info sv vid = ISuccess title description vid' \<longrightarrow>
          snd (process_youtube_video sv req) =
            [CallVideoInfo vid, CallTranscript vid,
             CallGenerateQuiz content title (requested_questions req)])"
proof (cases "get_video_info sv vid")
  case (IError m)
  from process_info_error [OF assms(1-3) IError] IError show ?thesis
    by simp
next
  case (ISuccess title description vid')
  from process_transcript [OF assms(1-3) ISuccess assms(4)] ISuccess show ?thesis
    by (simp split: quiz_result.splits)
qed

theorem transcript_success_short_circuits_witness:
  "snd (process_youtube_video demo_services (demo_request ''https://youtu.be/talk''))
     = [CallVideoInfo ''talk'', CallTranscript ''talk'', CallGenerateQuiz ''Hello world'' ''Owls'' 5]"
proof -
  have ne: "''https://youtu.be/talk'' \<noteq> []" by simp
  from transcript_success_short_circuits [OF demo_request_fields(1) ne demo_extract(1)
      demo_transcript(1)] demo_info(1)
  show ?thesis
    by (simp add: demo_request_fields)
qed

text \<open>
  Claim C6, as stated, fails: for the video \<open>subbed\<close> the transcript lookup fails, the
  text comes from the caption fallback, and the successful response has the content
  source \<open>transcript\<close>, not a source of its own.
\<close>

theorem captions_tagged_transcript_counterexample:
  "get_video_transcript demo_services ''subbed'' = TError no_transcript_message
   \<and> get_captions_from_youtube_api demo_services ''subbed''
       = Inr (TSuccess ''Tom & Jerry run <fast>'')
   \<and> process_youtube_video demo_services (demo_request ''https://youtu.be/subbed?t=5'')
       = ((SuccessBody ''Owls'' (JArray [JArray [], JArray []]) ''transcript'', 200),
          [CallVideoInfo ''subbed'', CallTranscript ''subbed'', CallCaptions ''subbed'',
           CallGenerateQuiz ''Tom & Jerry run <fast>'' ''Owls'' 5])"
proof -
  have "process_youtube_video demo_services (demo_request ''https://youtu.be/subbed?t=5'')
       = ((SuccessBody ''Owls'' (JArray [JArray [], JArray []]) ''transcript'', 200),
          [CallVideoInfo ''subbed'', CallTranscript ''subbed'', CallCaptions ''subbed'',
           CallGenerateQuiz ''Tom & Jerry run <fast>'' ''Owls'' 5])"
    using process_captions [OF demo_request_fields(1) _ demo_extract(2) demo_info(2)
        demo_transcript(2) demo_captions(1)]
    by (simp add: demo_request_fields demo_quiz)
  then show ?thesis
    by (simp add: demo_transcript demo_captions)
qed

text \<open>
  Claim C6, amended. The handler has two content sources. For every successful request
  the source is \<open>transcript\<close> or \<open>description\<close>: text of the transcript provider and
  text of the caption fallback are both tagged \<open>transcript\<close>, and the description is
  tagged \<open>description\<close>.
\<close>

theorem content_source_tags:
  assumes "youtube_url req = Some url" and "url \<noteq> []"
    and "extract_video_id sv url = Inr vid"
    and "get_video_info sv vid = ISuccess title description vid'"
  shows "(\<forall>content quiz. get_video_transcript sv vid = TSuccess content
            \<and> generate_quiz sv content title (requested_questions req) = QSuccess quiz \<longrightarrow>
          fst (process_youtube_video sv req) = (SuccessBody title quiz ''transcript'', 200))
    \<and> (\<forall>m1 content quiz. get_video_transcript sv vid = TError m1
            \<and> get_captions_from_youtube_api sv vid = Inr (TSuccess content)
            \<and> generate_quiz sv content title (requested_questions req) = QSuccess quiz \<longrightarrow>
          fst (process_youtube_video sv req) = (SuccessBody title quiz ''transcript'', 200))
    \<and> (\<forall>m1 m2 quiz. get_video_transcript sv vid = TError m1
            \<and> get_captions_from_youtube_api sv vid = Inr (TError m2)
            \<and> generate_quiz_from_description sv description title (requested_questions req)
                = QSuccess quiz \<longrightarrow>
          fst (process_youtube_video sv req) = (SuccessBody title quiz ''description'', 200))
    \<and> (\<forall>t q src c calls. process_youtube_video sv req = ((SuccessBody t q src, c), calls) \<longrightarrow>
          src = ''transcript'' \<or> src = ''description'')"
proof -
  have a: "fst (process_youtube_video sv req) = (SuccessBody title quiz ''transcript'', 200)"
    if "get_video_transcript sv vid = TSuccess content"
      and "generate_quiz sv content title (requested_questions req) = QSuccess quiz"
    for content quiz
    using process_transcript [OF assms that(1)] that(2) by simp
  have b: "fst (process_youtube_video sv req) = (SuccessBody title quiz ''transcript'', 200)"
    if "get_video_transcript sv vid = TError m1"
      and "get_captions_from_youtube_api sv vid = Inr (TSuccess content)"
      and "generate_quiz sv content title (requested_questions req) = QSuccess quiz"
    for m1 content quiz
    using process_captions [OF assms that(1,2)] that(3) by simp
  have c: "fst (process_youtube_video sv req) = (SuccessBody title quiz ''description'', 200)"
    if "get_video_transcript sv vid = TError m1"
      and "get_captions_from_youtube_api sv vid = Inr (TError m2)"
      and "generate_quiz_from_description sv description title (requested_questions req)
        = QSuccess quiz"
    for m1 m2 quiz
    using process_description [OF assms that(1,2)] that(3) by simp
  from a b c success_source [of sv req] show ?thesis
    by blast
qed

theorem content_source_tags_witness:
  "fst (process_youtube_video demo_services (demo_request ''https://youtu.be/talk''))
     = (SuccessBody ''Owls'' (JArray [JArray [], JArray []]) ''transcript'', 200)
   \<and> fst (process_youtube_video demo_services (demo_request ''https://youtu.be/subbed?t=5''))
     = (SuccessBody ''Owls'' (JArray [JArray [], JArray []]) ''transcript'', 200)
   \<and> fst (process_youtube_video demo_services (demo_request ''https://youtu.be/silent''))
     = (SuccessBody ''Owls'' (JArray [JArray []]) ''description'', 200)"
proof -
  have ne: "''https://youtu.be/talk'' \<noteq> []" "''https://youtu.be/subbed?t=5'' \<noteq> []"
    "''https://youtu.be/silent'' \<noteq> []"
    by simp_all
  note t1 = content_source_tags [OF demo_request_fields(1) ne(1) demo_extract(1) demo_info(1)]
  note t2 = content_source_tags [OF demo_request_fields(1) ne(2) demo_extract(2) demo_info(2)]
  note t3 = content_source_tags [OF demo_request_fields(1) ne(3) demo_extract(3) demo_info(3)]
  have 1: "fst (process_youtube_video demo_services (demo_request ''https://youtu.be/talk''))
     = (SuccessBody ''Owls'' (JArray [JArray [], JArray []]) ''transcript'', 200)"
    using t1 demo_transcript(1) demo_quiz(1) [of "''Hello world''"]
    by (simp add: demo_request_fields)
  have 2: "fst (process_youtube_video demo_services (demo_request ''https://youtu.be/subbed?t=5''))
     = (SuccessBody ''Owls'' (JArray [JArray [], JArray []]) ''transcript'', 200)"
    using t2 demo_transcript(2) demo_captions(1) demo_quiz(1) [of "''Tom & Jerry run <fast>''"]
    by (simp add: demo_request_fields)
  have 3: "fst (process_youtube_video demo_services (demo_request ''https://youtu.be/silent''))
     = (SuccessBody ''Owls'' (JArray [JArray []]) ''description'', 200)"
    using t3 demo_transcript(3) demo_captions(2) demo_quiz(2)
    by (simp add: demo_request_fields)
  from 1 2 3 show ?thesis
    by blast
qed

end
